theory Spec2Isabelle
  imports Main "HOL-Library.AList" "HOL-Library.Sublist"
begin

section \<open>Python values\<close>

text \<open>
  The functions of \<open>schema_helpers.py\<close> work on plain Python data: field configurations
  are dicts keyed by strings, their entries are strings, lists, classes and lambdas.
  A dict is an association list in insertion order; a Python dict never holds a key
  twice, which the theorems ask for as \<open>distinct (map fst d)\<close> where it matters.
  Python's \<open>==\<close> on the values compared here (strings, and lists of Q expressions) is
  the equality of HOL.

  \<^item> \<open>PClass n bs\<close> is a class object: its qualified name and the qualified names of
    its base classes, direct or not, as far as the module tests for them.
  \<^item> \<open>PThunk v\<close> is a lambda without parameters that returns \<open>v\<close>.
  \<^item> \<open>PFun n\<close> is a function object with at least one parameter, known by its name only.
  \<^item> \<open>PCall f args kwargs\<close> is the object that calling \<open>f\<close> gave: an instance when
    \<open>f\<close> is a class, a result known by the call only when \<open>f\<close> is a \<open>PFun\<close>.
\<close>

datatype pyval =
    PNone
  | PBool bool
  | PInt int
  | PStr string
  | PList "pyval list"
  | PDict "(string \<times> pyval) list"
  | PClass string "string list"
  | PThunk pyval
  | PFun string
  | PCall pyval "pyval list" "(string \<times> pyval) list"

type_synonym pydict = "(string \<times> pyval) list"

text \<open>Python's truth value of an object (\<open>bool(v)\<close>).\<close>

fun truthy :: "pyval \<Rightarrow> bool" where
  "truthy PNone = False"
| "truthy (PBool b) = b"
| "truthy (PInt i) = (i \<noteq> 0)"
| "truthy (PStr s) = (s \<noteq> [])"
| "truthy (PList xs) = (xs \<noteq> [])"
| "truthy (PDict d) = (d \<noteq> [])"
| "truthy (PClass n bs) = True"
| "truthy (PThunk v) = True"
| "truthy (PFun n) = True"
| "truthy (PCall f args kwargs) = True"

text \<open>
  An exception that leaves a function is the \<open>Inl\<close> of its result.
  \<open>Exception m\<close> is a plain \<open>Exception\<close> raised with the message that starts with \<open>m\<close>.
\<close>

datatype py_error =
    Exception string
  | KeyError string
  | TypeError
  | AttributeError
  | AssertionError
  | NameError
  | DoesNotExist

section \<open>The constants of the module\<close>

definition DENY :: string where "DENY = ''deny''"
definition REQUIRE :: string where "REQUIRE = ''require''"
definition UNIQUE :: string where "UNIQUE = ''unique''"
definition ALLOW :: string where "ALLOW = ''allow''"
definition CREATE :: string where "CREATE = ''create''"
definition READ :: string where "READ = ''read''"
definition UPDATE :: string where "UPDATE = ''update''"

section \<open>Helpers of the ramda library\<close>

text \<open>
  \<open>R\<close> is \<open>rescape_python_helpers.ramda\<close>, a library outside this repository.
  Each helper is modelled by what it does on the arguments the source passes.
  \<open>AList.update\<close> is the assignment \<open>dct[k] = v\<close>: it replaces the value of a key that
  is there and appends a key that is not.
\<close>

definition has :: "string \<Rightarrow> (string \<times> 'v) list \<Rightarrow> bool" where
  \<comment> \<open>\<open>R.has(key, dct)\<close> on a dict: \<open>key in dct\<close>.\<close>
  "has k d = (k \<in> set (map fst d))"

definition to_pairs :: "(string \<times> 'v) list \<Rightarrow> (string \<times> 'v) list" where
  \<comment> \<open>\<open>R.to_pairs(dct)\<close>: the items of the dict, in order.\<close>
  "to_pairs dct = dct"

definition from_pairs :: "(string \<times> 'v) list \<Rightarrow> (string \<times> 'v) list" where
  \<comment> \<open>\<open>R.from_pairs(pairs)\<close>: the dict built from the pairs; a later pair replaces the
      value of an earlier one of the same key.\<close>
  "from_pairs pairs = foldl (\<lambda>d (k, v). AList.update k v d) [] pairs"

definition chain :: "('a \<Rightarrow> 'b list) \<Rightarrow> 'a list \<Rightarrow> 'b list" where
  \<comment> \<open>\<open>R.chain(f, lst)\<close>: map and flatten one level.\<close>
  "chain f xs = concat (map f xs)"

definition prop_or :: "pyval \<Rightarrow> string \<Rightarrow> pydict \<Rightarrow> pyval" where
  \<comment> \<open>\<open>R.prop_or(default, key, dct)\<close> on a dict: the entry, or the default when the key is
      missing or its entry is \<open>None\<close>.\<close>
  "prop_or dflt key dct =
     (case map_of dct key of
        None \<Rightarrow> dflt
      | Some v \<Rightarrow> (if v = PNone then dflt else v))"

definition R_prop :: "string \<Rightarrow> pydict \<Rightarrow> py_error + pyval" where
  \<comment> \<open>\<open>R.prop(key, dct)\<close> on a dict: the entry; a missing key raises.\<close>
  "R_prop key dct =
     (case map_of dct key of
        None \<Rightarrow> Inl (Exception (''No key '' @ key @ '' found''))
      | Some v \<Rightarrow> Inr v)"

definition prop_or_val :: "pyval \<Rightarrow> string \<Rightarrow> pyval \<Rightarrow> pyval" where
  \<comment> \<open>\<open>R.prop_or\<close> on any object: the objects of the model that are not dicts carry no
      attribute, so they give the default\<close>
  "prop_or_val dflt key obj = (case obj of PDict d \<Rightarrow> prop_or dflt key d | _ \<Rightarrow> dflt)"

definition R_prop_val :: "string \<Rightarrow> pyval \<Rightarrow> py_error + pyval" where
  \<comment> \<open>\<open>R.prop\<close> on any object: one that is not a dict has no such key or attribute\<close>
  "R_prop_val key obj =
     (case obj of
        PDict d \<Rightarrow> R_prop key d
      | _ \<Rightarrow> Inl (Exception (''No key '' @ key @ '' found'')))"

section \<open>Strings\<close>

text \<open>\<open>s.replace(old, new)\<close>: every occurrence of \<open>old\<close>, leftmost first and without
  overlap, becomes \<open>new\<close>. For an empty \<open>old\<close> Python puts \<open>new\<close> before every
  character and at the end.\<close>

fun replace_from :: "string \<Rightarrow> string \<Rightarrow> string \<Rightarrow> string" where
  "replace_from old new [] = []"
| "replace_from old new (c # cs) =
     (if prefix old (c # cs) then new @ replace_from old new (drop (length old - 1) cs)
      else c # replace_from old new cs)"

definition replace_str :: "string \<Rightarrow> string \<Rightarrow> string \<Rightarrow> string" where
  "replace_str old new s =
     (if old = [] then new @ concat (map (\<lambda>c. c # new) s) else replace_from old new s)"

definition endswith :: "string \<Rightarrow> string \<Rightarrow> bool" where
  \<comment> \<open>\<open>s.endswith(x)\<close>\<close>
  "endswith s x = suffix x s"

definition contains_str :: "string \<Rightarrow> string \<Rightarrow> bool" where
  \<comment> \<open>\<open>x in s\<close> for strings\<close>
  "contains_str x s = sublist x s"

text \<open>\<open>s.split(sep)\<close> for a separator that is not empty: \<open>split_from sep acc s\<close> has read
  the characters \<open>acc\<close> (latest first) of the current piece.\<close>

fun split_from :: "string \<Rightarrow> string \<Rightarrow> string \<Rightarrow> string list" where
  "split_from sep acc [] = [rev acc]"
| "split_from sep acc (c # cs) =
     (if sep \<noteq> [] \<and> prefix sep (c # cs)
      then rev acc # split_from sep [] (drop (length sep - 1) cs)
      else split_from sep (c # acc) cs)"

definition split_str :: "string \<Rightarrow> string \<Rightarrow> string list" where
  "split_str s sep = split_from sep [] s"

section \<open>FILTER_FIELDS\<close>

text \<open>The graphene classes that the table names, each with the base class the module
  tests for, and the lambda that wraps a type in \<open>graphene.List\<close>.\<close>

definition graphene_Date :: pyval where
  "graphene_Date = PClass ''graphene.Date'' [''graphene.Scalar'']"
definition graphene_DateTime :: pyval where
  "graphene_DateTime = PClass ''graphene.DateTime'' [''graphene.Scalar'']"
definition graphene_Int :: pyval where
  "graphene_Int = PClass ''graphene.Int'' [''graphene.Scalar'']"
definition graphene_Float :: pyval where
  "graphene_Float = PClass ''graphene.Float'' [''graphene.Scalar'']"
definition graphene_String :: pyval where
  "graphene_String = PClass ''graphene.String'' [''graphene.Scalar'']"
definition graphene_JSONString :: pyval where
  "graphene_JSONString = PClass ''graphene.JSONString'' [''graphene.Scalar'']"
definition graphene_InputObjectType :: pyval where
  "graphene_InputObjectType = PClass ''graphene.InputObjectType'' []"
definition list_modifier :: pyval where
  "list_modifier = PFun ''lambda typ: graphene.List(typ)''"

definition filter_fields_testing :: "(string \<times> pydict) list" where
  \<comment> \<open>the table taken when \<open>settings.TESTING\<close> holds\<close>
  "filter_fields_testing =
    [(''contains'', []),
     (''icontains'', []),
     (''in'', [(''type_modifier'', list_modifier)])]"

definition filter_fields_all :: "(string \<times> pydict) list" where
  \<comment> \<open>the table taken otherwise\<close>
  "filter_fields_all =
    [(''year'', [(''allowed_types'', PList [graphene_Date, graphene_DateTime])]),
     (''month'', [(''allowed_types'', PList [graphene_Date, graphene_DateTime])]),
     (''day'', [(''allowed_types'', PList [graphene_Date, graphene_DateTime])]),
     (''week_day'', [(''allowed_types'', PList [graphene_Date, graphene_DateTime])]),
     (''hour'', [(''allowed_types'', PList [graphene_DateTime])]),
     (''minute'', [(''allowed_types'', PList [graphene_DateTime])]),
     (''second'', [(''allowed_types'', PList [graphene_DateTime])]),
     (''exact'', []),
     (''iexact'', []),
     (''contains'', []),
     (''icontains'', []),
     (''in'', [(''type_modifier'', list_modifier)]),
     (''gt'', [(''allowed_types'',
        PList [graphene_Int, graphene_Float, graphene_DateTime, graphene_Date])]),
     (''gte'', [(''allowed_types'',
        PList [graphene_Int, graphene_Float, graphene_DateTime, graphene_Date])]),
     (''lt'', [(''allowed_types'',
        PList [graphene_Int, graphene_Float, graphene_DateTime, graphene_Date])]),
     (''lte'', [(''allowed_types'',
        PList [graphene_Int, graphene_Float, graphene_DateTime, graphene_Date])]),
     (''startswith'', [(''allowed_types'', PList [graphene_String])]),
     (''istartswith'', [(''allowed_types'', PList [graphene_String])]),
     (''endswith'', [(''allowed_types'', PList [graphene_String])]),
     (''iendswith'', [(''allowed_types'', PList [graphene_String])]),
     (''range'', [(''type_modifier'', list_modifier)]),
     (''isnull'', []),
     (''regex'', [(''allowed_types'', PList [graphene_String])]),
     (''iregex'', [(''allowed_types'', PList [graphene_String])]),
     (''search'', [(''allowed_types'', PList [graphene_String])]),
     (''contained_by'', []),
     (''overlap'', [(''allowed_types'', PList [graphene_Date, graphene_DateTime])]),
     (''has_key'', [(''allowed_types'',
        PList [graphene_JSONString, graphene_InputObjectType])]),
     (''has_keys'', [(''allowed_types'',
        PList [graphene_JSONString, graphene_InputObjectType])]),
     (''has_any_keys'', [(''allowed_types'',
        PList [graphene_JSONString, graphene_InputObjectType])]),
     (''trigram_similar'', [(''allowed_types'', PList [graphene_String])])]"

definition base_filter_fields :: "bool \<Rightarrow> (string \<times> pydict) list" where
  \<comment> \<open>the \<open>R.if_else\<close> on \<open>settings.TESTING\<close>\<close>
  "base_filter_fields testing = (if testing then filter_fields_testing else filter_fields_all)"

definition with_not :: "(string \<times> 'v) list \<Rightarrow> (string \<times> 'v) list" where
  \<comment> \<open>the \<open>R.chain\<close> that puts the \<open>_not\<close> version after each pair\<close>
  "with_not pairs =
     chain (\<lambda>key_value. [key_value, (fst key_value @ ''_not'', snd key_value)]) pairs"

definition FILTER_FIELDS :: "bool \<Rightarrow> (string \<times> pydict) list" where
  "FILTER_FIELDS testing = (from_pairs \<circ> with_not \<circ> to_pairs) (base_filter_fields testing)"

section \<open>Query keyword arguments\<close>

text \<open>
  \<open>Q k v\<close> is Django's \<open>Q(**{k: v})\<close> and \<open>NotQ k v\<close> is \<open>~Q(**{k: v})\<close>. Both hold
  the pair \<open>(k, v)\<close> as their first child, which is what \<open>children[0]\<close> reads.
\<close>

datatype q_expr = Q string pyval | NotQ string pyval

fun children0 :: "q_expr \<Rightarrow> string \<times> pyval" where
  "children0 (Q k v) = (k, v)"
| "children0 (NotQ k v) = (k, v)"

text \<open>
  What the module reads of a Django model: the fields of \<open>_meta._forward_fields_map\<close>
  with their class (a relation names its related model) and the names of
  \<open>_meta.related_objects\<close>. The models of the application are given by name.
\<close>

datatype dj_field =
    JSONField
  | ForeignKey string
  | OneToOneField string
  | ManyToManyField string
  | OtherField

record model_meta =
  forward_fields_map :: "(string \<times> dj_field) list"
  related_objects :: "string list"

fun related_model :: "dj_field \<Rightarrow> string option" where
  \<comment> \<open>\<open>isinstance(field, (ForeignKey, OneToOneField, ManyToManyField))\<close> and
      \<open>field.related_model\<close>\<close>
  "related_model (ForeignKey m) = Some m"
| "related_model (OneToOneField m) = Some m"
| "related_model (ManyToManyField m) = Some m"
| "related_model f = None"

definition flatten_until :: "string \<Rightarrow> pyval \<Rightarrow> bool" where
  \<comment> \<open>\<open>_flatten_until(key, value)\<close> on a string key\<close>
  "flatten_until key v = (case v of PList xs \<Rightarrow> False | _ \<Rightarrow> True)"

definition key_matches_filter_field :: "bool \<Rightarrow> string \<Rightarrow> bool" where
  "key_matches_filter_field testing key =
     (let last_key = last (split_str key ''__'') in has last_key (FILTER_FIELDS testing))"

definition to_array_if_not :: "pyval \<Rightarrow> pyval list" where
  "to_array_if_not v = (case v of PList xs \<Rightarrow> xs | _ \<Rightarrow> [v])"

text \<open>\<open>R.chain(R.identity, ...)\<close> over results that may have raised: the first exception
  is the one that leaves.\<close>

fun chain_results :: "(py_error + 'a list) list \<Rightarrow> py_error + 'a list" where
  "chain_results [] = Inr []"
| "chain_results (r # rs) =
     (case r of
        Inl e \<Rightarrow> Inl e
      | Inr xs \<Rightarrow> (case chain_results rs of Inl e \<Rightarrow> Inl e | Inr ys \<Rightarrow> Inr (xs @ ys)))"

text \<open>\<open>R.map(R.prop('id'), value)\<close> on the elements of a list: an element without an
  id raises.\<close>

fun ids_of :: "pyval list \<Rightarrow> py_error + pyval list" where
  "ids_of [] = Inr []"
| "ids_of (v # vs) =
     (case R_prop_val ''id'' v of
        Inl e \<Rightarrow> Inl e
      | Inr i \<Rightarrow> (case ids_of vs of Inl e \<Rightarrow> Inl e | Inr is \<Rightarrow> Inr (i # is)))"

text \<open>
  The branch of \<open>process_query_kwarg\<close> for a \<open>JSONField\<close>. The library function
  \<open>flatten_dct_until\<close> is a parameter, called as the source calls it.
\<close>

definition json_queries ::
  "(pydict \<Rightarrow> (string \<Rightarrow> pyval \<Rightarrow> bool) \<Rightarrow> string \<Rightarrow> pydict) \<Rightarrow> bool \<Rightarrow> string \<Rightarrow> pyval
    \<Rightarrow> q_expr list" where
  "json_queries flatten_dct_until testing key val =
     ((\<lambda>dct. map (\<lambda>(key, val). Q key val) dct)
      \<circ> (\<lambda>dct. from_pairs (map (\<lambda>(key, val).
            ((if (case val of PDict _ \<Rightarrow> True | PList _ \<Rightarrow> True | _ \<Rightarrow> False)
                  \<and> \<not> key_matches_filter_field testing key
              then key @ ''__'' @ ''contains'' else key), val)) dct))
      \<circ> (\<lambda>dct. flatten_dct_until dct flatten_until ''__'')) [(key, val)]"

function process_query_kwarg ::
    "(pydict \<Rightarrow> (string \<Rightarrow> pyval \<Rightarrow> bool) \<Rightarrow> string \<Rightarrow> pydict) \<Rightarrow> bool
      \<Rightarrow> (string \<Rightarrow> model_meta) \<Rightarrow> model_meta \<Rightarrow> string \<Rightarrow> pyval
      \<Rightarrow> py_error + q_expr list"
  and process_query_value ::
    "(pydict \<Rightarrow> (string \<Rightarrow> pyval \<Rightarrow> bool) \<Rightarrow> string \<Rightarrow> pydict) \<Rightarrow> bool
      \<Rightarrow> (string \<Rightarrow> model_meta) \<Rightarrow> model_meta \<Rightarrow> pyval
      \<Rightarrow> py_error + q_expr list"
where
  "process_query_kwarg fl testing models model key val =
     (if endswith key ''__not'' then
        (let k = replace_str ''__not'' [] key in Inr [NotQ k val])
      else
        (case map_of (forward_fields_map model) key of
           Some JSONField \<Rightarrow> Inr (json_queries fl testing key val)
         | Some field \<Rightarrow>
             (case related_model field of
                Some related \<Rightarrow>
                  (case chain_results
                          (map (\<lambda>v. process_query_value fl testing models (models related) v)
                             (to_array_if_not val)) of
                     Inl e \<Rightarrow> Inl e
                   | Inr q_expressions \<Rightarrow>
                       Inr (map (\<lambda>q_expression.
                                   Q (key @ ''__'' @ fst (children0 q_expression))
                                     (snd (children0 q_expression)))
                              q_expressions))
              | None \<Rightarrow> Inr [Q key val])
         | None \<Rightarrow>
             (if hd (split_str key ''__'') \<in> set (related_objects model) then
                (case val of
                   PList vs \<Rightarrow>
                     (case ids_of vs of Inl e \<Rightarrow> Inl e | Inr is \<Rightarrow> Inr [Q key (PList is)])
                 | _ \<Rightarrow> Inl (Exception ''No key id found''))
              else Inr [Q key val])))"
| "process_query_value fl testing models model value_dict =
     (case value_dict of
        PDict d \<Rightarrow>
          chain_results
            (map (\<lambda>(key, inner_value).
                    process_query_kwarg fl testing models model key inner_value) d)
      | _ \<Rightarrow> Inl AttributeError)"
  by pat_completeness auto
termination
  apply (relation "measure (\<lambda>x. case x of
            Inl (fl, t, ms, m, k, v) \<Rightarrow> 2 * size v + 1
          | Inr (fl, t, ms, m, v) \<Rightarrow> 2 * size v)")
    apply simp
   apply (auto simp: to_array_if_not_def split: pyval.splits)
  subgoal premises p for model key f x xs
    using size_list_estimation' [OF p(3), of "size x" size] by simp
  subgoal premises p for model key f x xs
    using size_list_estimation' [OF p(3), of "size x" size] by simp
  subgoal premises p for model key f x xs
    using size_list_estimation' [OF p(3), of "size x" size] by simp
  subgoal premises p for d a b
    using size_list_estimation' [OF p(1), of "size b" "size_prod (\<lambda>x. 0) size"] by simp
  done

declare process_query_kwarg.simps [simp del] process_query_value.simps [simp del]

definition flatten_query_kwargs ::
    "(pydict \<Rightarrow> (string \<Rightarrow> pyval \<Rightarrow> bool) \<Rightarrow> string \<Rightarrow> pydict) \<Rightarrow> bool
      \<Rightarrow> (string \<Rightarrow> model_meta) \<Rightarrow> model_meta \<Rightarrow> pydict \<Rightarrow> py_error + q_expr list" where
  "flatten_query_kwargs fl testing models model kwargs =
     chain_results
       (map snd (map (\<lambda>(key, val). (key, process_query_kwarg fl testing models model key val))
                  kwargs))"

text \<open>
  \<open>R.map_keys_deep(f, dct)\<close>: the keys of the dict and of every dict below it, inside
  lists too, go through \<open>f\<close>, which gets the key and the value already mapped.
  A list index is no string key and stays.
\<close>

fun map_keys_deep_val :: "(string \<Rightarrow> pyval \<Rightarrow> string) \<Rightarrow> pyval \<Rightarrow> pyval" where
  "map_keys_deep_val f (PDict d) =
     PDict (from_pairs (map (\<lambda>(k, v). (f k (map_keys_deep_val f v), map_keys_deep_val f v)) d))"
| "map_keys_deep_val f (PList xs) = PList (map (map_keys_deep_val f) xs)"
| "map_keys_deep_val f v = v"

definition map_keys_deep :: "(string \<Rightarrow> pyval \<Rightarrow> string) \<Rightarrow> pydict \<Rightarrow> pydict" where
  "map_keys_deep f dct =
     from_pairs (map (\<lambda>(k, v). (f k (map_keys_deep_val f v), map_keys_deep_val f v)) dct)"

definition any_satisfy :: "('a \<Rightarrow> bool) \<Rightarrow> 'a list \<Rightarrow> bool" where
  \<comment> \<open>\<open>R.any_satisfy(f, lst)\<close>\<close>
  "any_satisfy f xs = list_ex f xs"

definition convert_filter_key :: "bool \<Rightarrow> string \<Rightarrow> pyval \<Rightarrow> string" where
  \<comment> \<open>the lambda that \<open>process_filter_kwargs\<close> maps over the keys\<close>
  "convert_filter_key testing k v =
     (if any_satisfy (\<lambda>string. contains_str (''_'' @ string) k) (map fst (FILTER_FIELDS testing))
      then replace_str ''_'' ''__'' k
      else k)"

definition process_filter_kwargs ::
    "(pydict \<Rightarrow> (string \<Rightarrow> pyval \<Rightarrow> bool) \<Rightarrow> string \<Rightarrow> pydict) \<Rightarrow> bool
      \<Rightarrow> (string \<Rightarrow> model_meta) \<Rightarrow> model_meta \<Rightarrow> pydict \<Rightarrow> py_error + q_expr list" where
  "process_filter_kwargs fl testing models model kwargs =
     ((\<lambda>kwrgs. flatten_query_kwargs fl testing models model kwrgs)
      \<circ> map_keys_deep (convert_filter_key testing)) kwargs"

section \<open>guess_update_or_create\<close>

definition guess_update_or_create :: "pydict \<Rightarrow> string" where
  "guess_update_or_create fields_dict =
     (if has ''id'' fields_dict then UPDATE else CREATE)"

section \<open>Classes and calls\<close>

definition graphene_Scalar :: pyval where
  "graphene_Scalar = PClass ''graphene.Scalar'' []"
definition graphene_ObjectType :: pyval where
  "graphene_ObjectType = PClass ''graphene.ObjectType'' []"
definition graphene_Boolean :: pyval where
  "graphene_Boolean = PClass ''graphene.Boolean'' [''graphene.Scalar'']"

definition issubclass :: "pyval \<Rightarrow> pyval \<Rightarrow> bool" where
  \<comment> \<open>\<open>inspect.isclass(c) and issubclass(c, base)\<close>; a class that is not a \<open>PClass\<close>
      has no known base\<close>
  "issubclass c base =
     (case c of
        PClass n bs \<Rightarrow> (case base of PClass m ms \<Rightarrow> n = m \<or> m \<in> set bs | _ \<Rightarrow> False)
      | _ \<Rightarrow> False)"

fun class_of :: "pyval \<Rightarrow> pyval" where
  \<comment> \<open>\<open>v.__class__\<close>: an object that a call gave is an instance of what was called\<close>
  "class_of (PCall f args kwargs) = f"
| "class_of PNone = PClass ''NoneType'' []"
| "class_of (PBool b) = PClass ''bool'' [''int'']"
| "class_of (PInt i) = PClass ''int'' []"
| "class_of (PStr s) = PClass ''str'' []"
| "class_of (PList xs) = PClass ''list'' []"
| "class_of (PDict d) = PClass ''dict'' []"
| "class_of (PClass n bs) = PClass ''type'' []"
| "class_of (PThunk v) = PClass ''function'' []"
| "class_of (PFun n) = PClass ''function'' []"

definition isinstance :: "pyval \<Rightarrow> pyval \<Rightarrow> bool" where
  "isinstance v c = issubclass (class_of v) c"

text \<open>
  A call \<open>f(*args, **kwargs)\<close>. A class gives its instance, a lambda without parameters
  its value, and plain data or an instance of a class is not callable. What a function
  known by name only does, or an object that such a function returned, is not in the
  model: it is the parameter \<open>call_fn\<close>, which returns or raises.
\<close>

type_synonym caller = "pyval \<Rightarrow> pyval list \<Rightarrow> pydict \<Rightarrow> py_error + pyval"

definition py_call :: "caller \<Rightarrow> pyval \<Rightarrow> pyval list \<Rightarrow> pydict \<Rightarrow> py_error + pyval" where
  "py_call call_fn f args kwargs =
     (case f of
        PClass n bs \<Rightarrow> Inr (PCall f args kwargs)
      | PThunk v \<Rightarrow> (if args = [] \<and> kwargs = [] then Inr v else Inl TypeError)
      | PFun n \<Rightarrow> call_fn f args kwargs
      | PCall g a k \<Rightarrow>
          (case g of PClass n bs \<Rightarrow> Inl TypeError | _ \<Rightarrow> call_fn f args kwargs)
      | _ \<Rightarrow> Inl TypeError)"

definition call_if_lambda :: "pyval \<Rightarrow> pyval" where
  \<comment> \<open>Modelled from the spec: \<open>call_if_lambda\<close> of \<open>graphene_helpers.py\<close> is not under
      src/ and the spec does not describe it; by its name and its use on field
      dicts, a lambda without parameters is called and anything else is returned.\<close>
  "call_if_lambda v = (case v of PThunk r \<Rightarrow> r | _ \<Rightarrow> v)"

section \<open>Field configurations\<close>

text \<open>
  The tests on an entry of a field configuration. For an entry that is not equal to
  the value, what \<open>R.prop_eq_or_in_or\<close> answers is the library's own membership test:
  it is the parameter \<open>entry_in\<close>.
\<close>

definition prop_eq_or :: "bool \<Rightarrow> string \<Rightarrow> string \<Rightarrow> pydict \<Rightarrow> bool" where
  \<comment> \<open>\<open>R.prop_eq_or(default, key, value, dct)\<close>, as a truth value:
      \<open>dct[key] and dct[key] == value if key in dct else default\<close>\<close>
  "prop_eq_or dflt key val dct =
     (case map_of dct key of
        None \<Rightarrow> dflt
      | Some v \<Rightarrow> truthy v \<and> v = PStr val)"

definition prop_eq_or_in_or ::
  "(pyval \<Rightarrow> string \<Rightarrow> bool) \<Rightarrow> bool \<Rightarrow> string \<Rightarrow> string \<Rightarrow> pydict \<Rightarrow> bool" where
  "prop_eq_or_in_or entry_in dflt key val dct =
     (case map_of dct key of
        None \<Rightarrow> dflt
      | Some v \<Rightarrow> v = PStr val \<or> entry_in v val)"

definition prop_eq_or_in ::
  "(pyval \<Rightarrow> string \<Rightarrow> bool) \<Rightarrow> string \<Rightarrow> string \<Rightarrow> pydict \<Rightarrow> bool" where
  "prop_eq_or_in entry_in key val dct = prop_eq_or_in_or entry_in False key val dct"

definition filter_dict :: "(string \<times> 'a \<Rightarrow> bool) \<Rightarrow> (string \<times> 'a) list \<Rightarrow> (string \<times> 'a) list" where
  \<comment> \<open>\<open>R.filter_dict(f, dct)\<close>: the items that \<open>f\<close> accepts\<close>
  "filter_dict f dct = filter f dct"

fun map_e :: "('a \<Rightarrow> py_error + 'b) \<Rightarrow> 'a list \<Rightarrow> py_error + 'b list" where
  \<comment> \<open>\<open>R.map(f, lst)\<close> for an \<open>f\<close> that may raise\<close>
  "map_e f [] = Inr []"
| "map_e f (x # xs) =
     (case f x of
        Inl e \<Rightarrow> Inl e
      | Inr y \<Rightarrow> (case map_e f xs of Inl e \<Rightarrow> Inl e | Inr ys \<Rightarrow> Inr (y # ys)))"

definition map_dict_e :: "('a \<Rightarrow> py_error + 'b) \<Rightarrow> (string \<times> 'a) list \<Rightarrow> py_error + (string \<times> 'b) list" where
  \<comment> \<open>\<open>R.map_dict(f, dct)\<close>: \<open>f\<close> on every value, the keys kept\<close>
  "map_dict_e f dct =
     map_e (\<lambda>(k, v). case f v of Inl e \<Rightarrow> Inl e | Inr w \<Rightarrow> Inr (k, w)) dct"

text \<open>A dict of fields: every value is a field configuration, itself a dict.\<close>

definition fields_of :: "pyval \<Rightarrow> py_error + (string \<times> pydict) list" where
  "fields_of v =
     (case v of
        PDict d \<Rightarrow> map_dict_e (\<lambda>c. case c of PDict cfg \<Rightarrow> Inr cfg | _ \<Rightarrow> Inl TypeError) d
      | _ \<Rightarrow> Inl TypeError)"

section \<open>instantiate_graphene_type\<close>

definition missing_type_error :: py_error where
  "missing_type_error = Exception ''No graphene_type nor type parameter found on the field value.''"

text \<open>
  \<open>input_type_class\<close>, which builds the class of a nested input type from the Django
  model of the graphene type, is the parameter \<open>itc\<close> of the functions that call it.
  It returns the class or raises, among others the exceptions of the fields of the
  nested type.
\<close>

type_synonym class_builder = "pydict \<Rightarrow> string \<Rightarrow> pyval \<Rightarrow> py_error + pyval"
type_synonym membership = "pyval \<Rightarrow> string \<Rightarrow> bool"

definition instantiate_graphene_type ::
  "caller \<Rightarrow> class_builder \<Rightarrow> membership
    \<Rightarrow> pydict \<Rightarrow> pyval \<Rightarrow> string \<Rightarrow> py_error + pyval" where
  "instantiate_graphene_type call_fn itc entry_in field_config parent_type_classes crud =
     (let graphene_type =
            prop_or (prop_or PNone ''type'' field_config) ''graphene_type'' field_config
      in
      if \<not> truthy graphene_type then Inl missing_type_error
      else
        (let graphene_type_modifier = prop_or PNone ''type_modifier'' field_config;
             resolved =
               (if issubclass graphene_type graphene_ObjectType then
                  (case R_prop ''fields'' field_config of
                     Inl e \<Rightarrow> Inl e
                   | Inr flds \<Rightarrow>
                       itc [(''graphene_type'', graphene_type), (''fields'', flds)]
                         crud parent_type_classes)
                else
                  (case graphene_type of
                     PThunk g \<Rightarrow>
                       (case R_prop ''fields'' field_config of
                          Inl e \<Rightarrow> Inl e
                        | Inr flds \<Rightarrow>
                            itc [(''graphene_type'', g), (''fields'', call_if_lambda flds)]
                              crud parent_type_classes)
                   | PFun n \<Rightarrow> py_call call_fn graphene_type [PStr crud] []
                   | _ \<Rightarrow> Inr graphene_type))
         in
         case resolved of
           Inl e \<Rightarrow> Inl e
         | Inr resolved_graphene_type \<Rightarrow>
             (if truthy graphene_type_modifier
              then py_call call_fn graphene_type_modifier [resolved_graphene_type] []
              else py_call call_fn resolved_graphene_type []
                     [(''required'',
                       PBool (prop_eq_or_in_or entry_in False crud REQUIRE field_config))])))"

section \<open>input_type_fields, allowed_read_fields, allowed_filter_arguments\<close>

definition input_type_fields ::
  "caller \<Rightarrow> class_builder \<Rightarrow> membership
    \<Rightarrow> pyval \<Rightarrow> string \<Rightarrow> pyval \<Rightarrow> py_error + pydict" where
  \<comment> \<open>a crud that is \<open>None\<close> or empty is the empty string\<close>
  "input_type_fields call_fn itc entry_in fields_dict crud parent_type_classes =
     (let crud' =
            (if crud \<noteq> [] then crud
             else (case fields_dict of PDict d \<Rightarrow> guess_update_or_create d | _ \<Rightarrow> CREATE))
      in
      case fields_of (call_if_lambda fields_dict) of
        Inl e \<Rightarrow> Inl e
      | Inr flds \<Rightarrow>
          map_dict_e
            (\<lambda>field_config.
               instantiate_graphene_type call_fn itc entry_in field_config parent_type_classes crud')
            (filter_dict (\<lambda>key_value. \<not> prop_eq_or False crud' DENY (snd key_value)) flds))"

definition resolve_type ::
  "caller \<Rightarrow> class_builder \<Rightarrow> pyval \<Rightarrow> pydict \<Rightarrow> py_error + pyval" where
  "resolve_type call_fn itc graphene_type field_config =
     (case R_prop ''type'' field_config of
        Inl e \<Rightarrow> Inl e
      | Inr t \<Rightarrow>
          (if issubclass t graphene_Scalar then py_call call_fn t [] []
           else
             (case itc field_config READ graphene_type of
                Inl e \<Rightarrow> Inl e
              | Inr c \<Rightarrow> py_call call_fn c [] [])))"

definition allowed_read_fields ::
  "caller \<Rightarrow> class_builder \<Rightarrow> membership
    \<Rightarrow> pyval \<Rightarrow> pyval \<Rightarrow> py_error + pydict" where
  "allowed_read_fields call_fn itc entry_in fields_dict graphene_type =
     (case fields_of fields_dict of
        Inl e \<Rightarrow> Inl e
      | Inr flds \<Rightarrow>
          (map_dict_e (resolve_type call_fn itc graphene_type)
           \<circ> filter_dict
               (\<lambda>key_value. True \<and> \<not> prop_eq_or_in entry_in READ DENY (snd key_value)))
            flds)"

definition allowed_filter_pairs ::
  "caller \<Rightarrow> bool \<Rightarrow> string \<Rightarrow> pyval \<Rightarrow> py_error + (string \<times> pyval) list" where
  "allowed_filter_pairs call_fn testing field_name graphene_type =
     map_e
       (\<lambda>(filter_str, config).
          case (if has ''type_modifier'' config
                then (case map_of config ''type_modifier'' of
                        Some m \<Rightarrow> py_call call_fn m [graphene_type] []
                      | None \<Rightarrow> Inl (KeyError ''type_modifier''))
                else py_call call_fn graphene_type [] []) of
            Inl e \<Rightarrow> Inl e
          | Inr t \<Rightarrow> Inr (field_name @ ''_'' @ filter_str, t))
       (filter_dict
          (\<lambda>keyvalue.
             \<not> has ''allowed_types'' (snd keyvalue)
             \<or> any_satisfy (\<lambda>typ. issubclass graphene_type typ)
                 (case map_of (snd keyvalue) ''allowed_types'' of
                    Some (PList typs) \<Rightarrow> typs
                  | _ \<Rightarrow> []))
          (FILTER_FIELDS testing))"

definition make_filters :: "caller \<Rightarrow> bool \<Rightarrow> string \<times> pyval \<Rightarrow> py_error + pydict" where
  "make_filters call_fn testing pair =
     (case allowed_filter_pairs call_fn testing (fst pair) (class_of (snd pair)) of
        Inl e \<Rightarrow> Inl e
      | Inr pairs \<Rightarrow> Inr (from_pairs ([pair] @ pairs)))"

definition merge :: "(string \<times> 'v) list \<Rightarrow> (string \<times> 'v) list \<Rightarrow> (string \<times> 'v) list" where
  \<comment> \<open>\<open>R.merge(a, b)\<close>: the entries of \<open>b\<close> are assigned into \<open>a\<close>\<close>
  "merge a b = foldl (\<lambda>d (k, v). AList.update k v d) a b"

definition merge_all :: "(string \<times> 'v) list list \<Rightarrow> (string \<times> 'v) list" where
  "merge_all dcts = foldl merge [] dcts"

definition add_filters :: "caller \<Rightarrow> bool \<Rightarrow> pydict \<Rightarrow> py_error + pydict" where
  "add_filters call_fn testing argument_dict =
     (case map_e (make_filters call_fn testing) (to_pairs argument_dict) of
        Inl e \<Rightarrow> Inl e
      | Inr dcts \<Rightarrow> Inr (merge_all dcts))"

definition allowed_filter_arguments ::
  "caller \<Rightarrow> class_builder \<Rightarrow> membership \<Rightarrow> bool
    \<Rightarrow> pyval \<Rightarrow> pyval \<Rightarrow> py_error + pydict" where
  "allowed_filter_arguments call_fn itc entry_in testing fields_dict graphene_type =
     (case fields_of (call_if_lambda fields_dict) of
        Inl e \<Rightarrow> Inl e
      | Inr flds \<Rightarrow>
          (case (map_dict_e (resolve_type call_fn itc graphene_type)
                 \<circ> filter_dict
                     (\<lambda>key_value. True \<and> \<not> prop_eq_or_in entry_in READ DENY (snd key_value)))
                  flds of
             Inl e \<Rightarrow> Inl e
           | Inr argument_dict \<Rightarrow> add_filters call_fn testing argument_dict))"

definition returns_key :: "string \<Rightarrow> py_error + (string \<times> 'v) list \<Rightarrow> bool" where
  \<comment> \<open>the call returned a dict and the dict has the key\<close>
  "returns_key k r = (case r of Inl e \<Rightarrow> False | Inr d \<Rightarrow> has k d)"

section \<open>input_type_parameters_for_update_or_create\<close>

definition omit :: "string list \<Rightarrow> (string \<times> 'v) list \<Rightarrow> (string \<times> 'v) list" where
  \<comment> \<open>\<open>R.omit(keys, dct)\<close>\<close>
  "omit keys dct = filter (\<lambda>(k, v). k \<notin> set keys) dct"

definition pick :: "string list \<Rightarrow> (string \<times> 'v) list \<Rightarrow> (string \<times> 'v) list" where
  \<comment> \<open>\<open>R.pick(keys, dct)\<close>\<close>
  "pick keys dct = filter (\<lambda>(k, v). k \<in> set keys) dct"

definition related_object_id_if_django_type ::
  "pydict \<Rightarrow> string \<Rightarrow> pyval \<Rightarrow> py_error + pydict" where
  \<comment> \<open>the \<open>except\<close> clause logs and raises the exception again\<close>
  "related_object_id_if_django_type fields_dict key val =
     (case map_of fields_dict key of
        None \<Rightarrow> Inl (KeyError key)
      | Some field_config \<Rightarrow>
          (if truthy (prop_or_val (PBool False) ''django_type'' field_config)
           then (case R_prop_val ''id'' val of
                   Inl e \<Rightarrow> Inl e
                 | Inr i \<Rightarrow> Inr [(key @ ''_id'', i)])
           else Inr [(key, val)]))"

definition item_path_or :: "pyval \<Rightarrow> string list \<Rightarrow> pyval \<Rightarrow> pyval" where
  \<comment> \<open>\<open>R.item_path_or(default, keys, dct)\<close>: the value at the path of keys, or the default
      where the path leaves the dicts or ends at \<open>None\<close>\<close>
  "item_path_or dflt keys obj =
     (case foldl (\<lambda>cur key. case cur of
                     Some (PDict d) \<Rightarrow> map_of d key
                   | _ \<Rightarrow> None) (Some obj) keys of
        None \<Rightarrow> dflt
      | Some v \<Rightarrow> (if v = PNone then dflt else v))"

definition contains :: "pyval \<Rightarrow> pyval \<Rightarrow> py_error + bool" where
  \<comment> \<open>\<open>R.contains(value, lst)\<close>: whether the value equals an element of what is iterated,
      the elements of a list, the keys of a dict, the characters of a string\<close>
  "contains v lst =
     (case lst of
        PList xs \<Rightarrow> Inr (v \<in> set xs)
      | PDict d \<Rightarrow> Inr (v \<in> set (map (\<lambda>kv. PStr (fst kv)) d))
      | PStr s \<Rightarrow> Inr (v \<in> set (map (\<lambda>c. PStr [c]) s))
      | _ \<Rightarrow> Inl TypeError)"

definition key_value_based_on_unique_or_foreign ::
  "(string \<times> pydict) list \<Rightarrow> pydict \<Rightarrow> string \<Rightarrow> py_error + pydict" where
  "key_value_based_on_unique_or_foreign key_to_modified_key_and_value fields_dict key =
     (case map_of key_to_modified_key_and_value key of
        None \<Rightarrow> Inl (KeyError key)
      | Some modified_key_value \<Rightarrow>
          (case contains (PStr ''unique'')
                  (item_path_or (PList [PNone]) [key, ''unique''] (PDict fields_dict)) of
             Inl e \<Rightarrow> Inl e
           | Inr unique \<Rightarrow>
               Inr (if unique then modified_key_value
                    else [(''defaults'', PDict modified_key_value)])))"

text \<open>
  \<open>R.merge_deep(a, b)\<close> is the merge of the \<open>deepmerge\<close> package with the library's
  default strategies: dicts are merged key by key, lists are appended, and anything
  else, or two values of different types, gives the second value.
\<close>

fun merge_deep :: "pyval \<Rightarrow> pyval \<Rightarrow> pyval" where
  "merge_deep (PDict a) (PDict b) =
     PDict (foldl (\<lambda>acc (k, v).
                     case map_of acc k of
                       None \<Rightarrow> acc @ [(k, v)]
                     | Some old \<Rightarrow> AList.update k (merge_deep old v) acc)
              a b)"
| "merge_deep (PList a) (PList b) = PList (a @ b)"
| "merge_deep base nxt = nxt"

definition merge_deep_all :: "pydict list \<Rightarrow> pyval" where
  "merge_deep_all dcts = foldl (\<lambda>accum dct. merge_deep accum (PDict dct)) (PDict []) dcts"

definition input_type_parameters_for_update_or_create ::
  "pydict \<Rightarrow> pydict \<Rightarrow> py_error + pyval" where
  "input_type_parameters_for_update_or_create fields_dict field_name_to_value =
     (case map_e (\<lambda>(key, val).
                    case related_object_id_if_django_type fields_dict key val of
                      Inl e \<Rightarrow> Inl e
                    | Inr modified \<Rightarrow> Inr (key, modified))
             (omit [''id''] field_name_to_value) of
        Inl e \<Rightarrow> Inl e
      | Inr key_to_modified_key_and_value \<Rightarrow>
          (if has ''id'' field_name_to_value then
             (case R_prop ''id'' field_name_to_value of
                Inl e \<Rightarrow> Inl e
              | Inr i \<Rightarrow>
                  Inr (PDict [(''id'', i),
                              (''defaults'',
                               PDict (merge_all (map snd key_to_modified_key_and_value)))]))
           else
             (case map_e (\<lambda>(key, val).
                            key_value_based_on_unique_or_foreign
                              key_to_modified_key_and_value fields_dict key)
                     field_name_to_value of
                Inl e \<Rightarrow> Inl e
              | Inr dcts \<Rightarrow>
                  (let to_insert = merge_deep_all dcts
                   in case to_insert of
                        PDict d \<Rightarrow>
                          (if length (map fst d) = 1 then R_prop ''defaults'' d
                           else Inr to_insert)
                      | _ \<Rightarrow> Inr to_insert))))"

section \<open>delete_if_marked_for_delete\<close>

text \<open>
  The database is a state of some type \<open>'s\<close>. The two things the function asks of the
  ORM are parameters: \<open>orm_delete s i\<close> is the state after
  \<open>model_cls.objects.filter(id=i).delete()\<close>, and \<open>orm_get_deleted s kwargs\<close> is what
  \<open>model_cls.objects.deleted_only().get(**kwargs)\<close> returns or raises in state \<open>s\<close>.
  The function returns its result, or the exception, with the state it leaves.
  \<open>call_fn\<close> is the parameter of \<open>py_call\<close>, for an upsert class that is no plain
  class.
\<close>

definition all_satisfy :: "('a \<Rightarrow> bool) \<Rightarrow> 'a list \<Rightarrow> bool" where
  \<comment> \<open>\<open>R.all_satisfy(f, lst)\<close>\<close>
  "all_satisfy f xs = list_all f xs"

definition delete_if_marked_for_delete ::
  "caller \<Rightarrow> ('s \<Rightarrow> pyval \<Rightarrow> 's) \<Rightarrow> ('s \<Rightarrow> pydict \<Rightarrow> py_error + pyval) \<Rightarrow> pyval \<Rightarrow> string \<Rightarrow> pydict
    \<Rightarrow> 's \<Rightarrow> (py_error + pyval) \<times> 's" where
  "delete_if_marked_for_delete call_fn orm_delete orm_get_deleted grapene_upsert_class
       upsert_field_name model_data store =
     (if all_satisfy (\<lambda>prop. truthy (prop_or (PBool False) prop model_data))
           [''id'', ''deleted'']
      then
        (case R_prop ''id'' model_data of
           Inl e \<Rightarrow> (Inl e, store)
         | Inr i \<Rightarrow>
             (let store' = orm_delete store i
              in case orm_get_deleted store' (pick [''id''] model_data) of
                   Inl e \<Rightarrow> (Inl e, store')
                 | Inr inst \<Rightarrow>
                     (if \<not> truthy inst then
                        (case R_prop_val ''id'' inst of
                           Inl e \<Rightarrow> (Inl e, store')
                         | Inr i' \<Rightarrow> (Inl (Exception ''Failed to delete''), store'))
                      else
                        (py_call call_fn grapene_upsert_class [] [(upsert_field_name, inst)],
                         store'))))
      else (Inr PNone, store))"

section \<open>The Decimal scalar\<close>

text \<open>
  The module binds the name \<open>Decimal\<close> twice: the import of line 5 binds it to the class
  of the standard library, the class statement of line 136 binds it again to the
  scalar class, a subclass of graphene's \<open>Scalar\<close>. \<open>serialize\<close> looks the name up in
  the module's globals when it is called.
\<close>

definition decimal_Decimal :: pyval where
  "decimal_Decimal = PClass ''decimal.Decimal'' []"

definition schema_helpers_Decimal :: pyval where
  "schema_helpers_Decimal =
     PClass ''rescape_graphene.graphql_helpers.schema_helpers.Decimal'' [''graphene.Scalar'']"

definition module_globals :: pydict where
  "module_globals =
     from_pairs
       [(''Decimal'', decimal_Decimal),
        (''Scalar'', graphene_Scalar),
        (''Decimal'', schema_helpers_Decimal)]"

definition serialize :: "(pyval \<Rightarrow> string) \<Rightarrow> pyval \<Rightarrow> py_error + pyval" where
  \<comment> \<open>\<open>py_str\<close> is Python's \<open>str\<close>\<close>
  "serialize py_str dec =
     (case map_of module_globals ''Decimal'' of
        None \<Rightarrow> Inl NameError
      | Some cls \<Rightarrow>
          (if isinstance dec cls then Inr (PStr (py_str dec)) else Inl AssertionError))"

section \<open>query_sequentially\<close>

text \<open>
  The manager and the querysets that its methods return are symbolic: a queryset is the
  manager or the result of a method call on a queryset, so the value returned by
  \<open>query_sequentially\<close> records every call made and its order.
  \<open>'q\<close> is the type of Q expressions, compared with \<open>R.equals\<close> (Python \<open>==\<close>).
\<close>

datatype 'q queryset =
    Manager
  | Call "'q queryset" string "'q list"
  | Distinct "'q queryset"

definition reduce_inner :: "string \<Rightarrow> bool \<Rightarrow> 'q queryset \<Rightarrow> 'q list \<Rightarrow> 'q queryset" where
  \<comment> \<open>the local function \<open>_reduce(last, mgr_or_queryset, q_expressions_set)\<close>\<close>
  "reduce_inner manager_method lst mgr_or_queryset q_expressions_set =
     Distinct (Call mgr_or_queryset (if lst then manager_method else ''filter'') q_expressions_set)"

definition query_sequentially ::
  "'q queryset \<Rightarrow> string \<Rightarrow> 'q list list \<Rightarrow> 'q queryset" where
  "query_sequentially manager manager_method q_expressions_sets =
     (if length q_expressions_sets = 0 then Call manager manager_method []
      else
        (let lst = last q_expressions_sets
         in foldl (\<lambda>manager_or_query q_expressions.
                     reduce_inner manager_method (q_expressions = lst) manager_or_query q_expressions)
              manager q_expressions_sets))"

text \<open>The method calls recorded in a queryset, oldest first, each with its arguments.\<close>

fun calls :: "'q queryset \<Rightarrow> (string \<times> 'q list) list" where
  "calls Manager = []"
| "calls (Call q m args) = calls q @ [(m, args)]"
| "calls (Distinct q) = calls q"

section \<open>Sample inputs\<close>

text \<open>Inputs for the examples.\<close>

definition symbolic_input_type_class :: "pydict \<Rightarrow> string \<Rightarrow> pyval \<Rightarrow> py_error + pyval" where
  \<comment> \<open>an \<open>input_type_class\<close> that always returns, with a class known by its arguments\<close>
  "symbolic_input_type_class field_config crud parent_type_classes =
     Inr (PCall (PFun ''input_type_class'') [PDict field_config, PStr crud, parent_type_classes] [])"

definition symbolic_call :: caller where
  \<comment> \<open>a \<open>call_fn\<close> under which every call returns, an object known by the call\<close>
  "symbolic_call f args kwargs = Inr (PCall f args kwargs)"

definition list_membership :: "pyval \<Rightarrow> string \<Rightarrow> bool" where
  \<comment> \<open>a membership test that accepts a list with the value among its elements\<close>
  "list_membership v val = (case v of PList xs \<Rightarrow> PStr val \<in> set xs | _ \<Rightarrow> False)"

definition sample_fields :: pydict where
  \<comment> \<open>a field \<open>checked\<close>, a field \<open>checked_in\<close> that is denied for create and read, and
      a field \<open>secret\<close> whose read entry is a list with \<open>DENY\<close> in it\<close>
  "sample_fields =
     [(''checked'', PDict [(''type'', graphene_Boolean)]),
      (''checked_in'',
         PDict [(''type'', graphene_DateTime), (''create'', PStr ''deny''),
                (''read'', PStr ''deny'')]),
      (''secret'', PDict [(''type'', graphene_String), (''read'', PList [PStr ''deny''])])]"

text \<open>A database for the examples: rows of an id and a deleted flag, deleted softly.\<close>

definition sample_orm_delete :: "(pyval \<times> bool) list \<Rightarrow> pyval \<Rightarrow> (pyval \<times> bool) list" where
  "sample_orm_delete store i = map (\<lambda>(j, d). if j = i then (j, True) else (j, d)) store"

definition sample_orm_get_deleted :: "(pyval \<times> bool) list \<Rightarrow> pydict \<Rightarrow> py_error + pyval" where
  "sample_orm_get_deleted store kwargs =
     (case filter (\<lambda>(j, d). d \<and> map_of kwargs ''id'' = Some j) store of
        [(j, d)] \<Rightarrow> Inr (PCall (PClass ''Region'' []) [] [(''id'', j)])
      | _ \<Rightarrow> Inl DoesNotExist)"

definition sample_str :: "pyval \<Rightarrow> string" where
  \<comment> \<open>a \<open>str\<close> for the examples: an object built from one string prints as that string\<close>
  "sample_str v = (case v of PCall f [PStr s] kwargs \<Rightarrow> s | _ \<Rightarrow> ''object'')"

definition user_model :: model_meta where
  \<comment> \<open>a model with the plain fields \<open>id\<close> and \<open>first_name\<close>\<close>
  "user_model =
     \<lparr>forward_fields_map = [(''id'', OtherField), (''first_name'', OtherField)],
      related_objects = []\<rparr>"

section \<open>Theorems\<close>

subsection \<open>guess_update_or_create\<close>

text \<open>
  C8. \<open>guess_update_or_create\<close> returns \<open>UPDATE\<close> exactly when the dict has the key
  \<open>'id'\<close> and \<open>CREATE\<close> exactly when it has not; it returns nothing else.
\<close>

theorem guess_update_or_create_iff_id:
  "(guess_update_or_create fields_dict = UPDATE) = has ''id'' fields_dict
   \<and> (guess_update_or_create fields_dict = CREATE) = (\<not> has ''id'' fields_dict)
   \<and> (guess_update_or_create fields_dict = UPDATE \<or> guess_update_or_create fields_dict = CREATE)"
  by (simp add: guess_update_or_create_def UPDATE_def CREATE_def)

theorem guess_update_or_create_witness:
  "guess_update_or_create [(''id'', PInt 5), (''name'', PStr ''x'')] = ''update''
   \<and> guess_update_or_create [(''name'', PStr ''x'')] = ''create''"
  using guess_update_or_create_iff_id [of "[(''id'', PInt 5), (''name'', PStr ''x'')]"]
    guess_update_or_create_iff_id [of "[(''name'', PStr ''x'')]"]
  by (simp add: has_def UPDATE_def CREATE_def)

subsection \<open>query_sequentially\<close>

lemma foldl_reduce_inner_calls:
  "calls (foldl (\<lambda>acc s. reduce_inner m (P s) acc s) q xs)
     = calls q @ map (\<lambda>s. (if P s then m else ''filter'', s)) xs"
  by (induction xs arbitrary: q) (simp_all add: reduce_inner_def)

lemma foldl_reduce_inner_cong:
  "(\<And>s. s \<in> set xs \<Longrightarrow> P s = P' s)
   \<Longrightarrow> foldl (\<lambda>acc s. reduce_inner m (P s) acc s) q xs
       = foldl (\<lambda>acc s. reduce_inner m (P' s) acc s) q xs"
  by (induction xs arbitrary: q) simp_all

text \<open>
  C10. With no sets, \<open>query_sequentially\<close> calls the manager method without arguments.
  With sets, it folds over them from the manager: a set that differs from the last set
  is queried with \<open>filter\<close>, a set equal to the last set with the manager method, each
  followed by \<open>distinct()\<close>. When no earlier set equals the last one, the manager method
  is called once, on the last set, after \<open>filter\<close> on every earlier set.
\<close>

theorem query_sequentially_calls:
  "query_sequentially manager manager_method [] = Call manager manager_method []
   \<and> (sets \<noteq> [] \<longrightarrow>
        query_sequentially manager manager_method sets
          = foldl (\<lambda>acc s. Distinct (Call acc (if s = last sets then manager_method else ''filter'') s))
              manager sets
        \<and> calls (query_sequentially manager manager_method sets)
          = calls manager
            @ map (\<lambda>s. (if s = last sets then manager_method else ''filter'', s)) sets)
   \<and> (sets \<noteq> [] \<and> last sets \<notin> set (butlast sets) \<longrightarrow>
        query_sequentially manager manager_method sets
          = Distinct (Call (foldl (\<lambda>acc s. Distinct (Call acc ''filter'' s)) manager (butlast sets))
                        manager_method (last sets)))"
proof (intro conjI impI)
  show "query_sequentially manager manager_method [] = Call manager manager_method []"
    by (simp add: query_sequentially_def)
next
  assume ne: "sets \<noteq> []"
  then show "query_sequentially manager manager_method sets
      = foldl (\<lambda>acc s. Distinct (Call acc (if s = last sets then manager_method else ''filter'') s))
          manager sets"
    by (simp add: query_sequentially_def reduce_inner_def)
  from ne show "calls (query_sequentially manager manager_method sets)
      = calls manager
        @ map (\<lambda>s. (if s = last sets then manager_method else ''filter'', s)) sets"
    using foldl_reduce_inner_calls [of manager_method "\<lambda>s. s = last sets" manager sets]
    by (simp add: query_sequentially_def)
next
  assume h: "sets \<noteq> [] \<and> last sets \<notin> set (butlast sets)"
  then have split: "sets = butlast sets @ [last sets]" by simp
  have early: "foldl (\<lambda>acc s. reduce_inner manager_method (s = last sets) acc s) manager (butlast sets)
      = foldl (\<lambda>acc s. reduce_inner manager_method False acc s) manager (butlast sets)"
    using h by (intro foldl_reduce_inner_cong) auto
  have "query_sequentially manager manager_method sets
      = foldl (\<lambda>acc s. reduce_inner manager_method (s = last sets) acc s) manager
          (butlast sets @ [last sets])"
    using h by (simp add: query_sequentially_def)
  also have "\<dots> = reduce_inner manager_method True
      (foldl (\<lambda>acc s. reduce_inner manager_method False acc s) manager (butlast sets)) (last sets)"
    by (simp add: early)
  finally show "query_sequentially manager manager_method sets
      = Distinct (Call (foldl (\<lambda>acc s. Distinct (Call acc ''filter'' s)) manager (butlast sets))
                    manager_method (last sets))"
    by (simp add: reduce_inner_def)
qed

theorem query_sequentially_witness:
  "query_sequentially Manager ''count'' [[1::nat], [2, 3]]
     = Distinct (Call (Distinct (Call Manager ''filter'' [1])) ''count'' [2, 3])
   \<and> calls (query_sequentially Manager ''count'' [[1::nat], [2, 3]])
     = [(''filter'', [1]), (''count'', [2, 3])]"
  using query_sequentially_calls [of Manager "''count''" "[[1::nat], [2, 3]]"]
  by (simp add: query_sequentially_def reduce_inner_def)

subsection \<open>FILTER_FIELDS\<close>

lemma update_fresh: "k \<notin> fst ` set d \<Longrightarrow> AList.update k v d = d @ [(k, v)]"
  by (induction d) auto

lemma foldl_update_distinct:
  "distinct (map fst (d @ ps)) \<Longrightarrow> foldl (\<lambda>d (k, v). AList.update k v d) d ps = d @ ps"
proof (induction ps arbitrary: d)
  case Nil
  then show ?case by simp
next
  case (Cons p ps)
  obtain k v where p: "p = (k, v)" by (cases p)
  from Cons.prems have fresh: "k \<notin> fst ` set d" by (auto simp: p)
  from Cons.prems have "distinct (map fst ((d @ [(k, v)]) @ ps))" by (simp add: p)
  from Cons.IH [OF this] show ?case by (simp add: p update_fresh [OF fresh])
qed

lemma from_pairs_distinct: "distinct (map fst ps) \<Longrightarrow> from_pairs ps = ps"
  using foldl_update_distinct [of "[]" ps] by (simp add: from_pairs_def)

lemma keys_with_not_testing:
  "map fst (with_not filter_fields_testing) =
    [''contains'', ''contains_not'', ''icontains'', ''icontains_not'', ''in'', ''in_not'']"
  by (simp add: with_not_def chain_def filter_fields_testing_def)

lemma keys_with_not_all:
  "map fst (with_not filter_fields_all) =
    [''year'', ''year_not'', ''month'', ''month_not'', ''day'', ''day_not'',
     ''week_day'', ''week_day_not'', ''hour'', ''hour_not'', ''minute'', ''minute_not'',
     ''second'', ''second_not'', ''exact'', ''exact_not'', ''iexact'', ''iexact_not'',
     ''contains'', ''contains_not'', ''icontains'', ''icontains_not'', ''in'', ''in_not'',
     ''gt'', ''gt_not'', ''gte'', ''gte_not'', ''lt'', ''lt_not'', ''lte'', ''lte_not'',
     ''startswith'', ''startswith_not'', ''istartswith'', ''istartswith_not'',
     ''endswith'', ''endswith_not'', ''iendswith'', ''iendswith_not'',
     ''range'', ''range_not'', ''isnull'', ''isnull_not'', ''regex'', ''regex_not'',
     ''iregex'', ''iregex_not'', ''search'', ''search_not'',
     ''contained_by'', ''contained_by_not'', ''overlap'', ''overlap_not'',
     ''has_key'', ''has_key_not'', ''has_keys'', ''has_keys_not'',
     ''has_any_keys'', ''has_any_keys_not'', ''trigram_similar'', ''trigram_similar_not'']"
  by (simp add: with_not_def chain_def filter_fields_all_def)

lemma distinct_with_not_base: "distinct (map fst (with_not (base_filter_fields testing)))"
proof (cases testing)
  case True
  then show ?thesis unfolding base_filter_fields_def by (simp add: keys_with_not_testing)
next
  case False
  then show ?thesis unfolding base_filter_fields_def by (simp add: keys_with_not_all)
qed

lemma FILTER_FIELDS_eq: "FILTER_FIELDS testing = with_not (base_filter_fields testing)"
  by (simp add: FILTER_FIELDS_def to_pairs_def from_pairs_distinct distinct_with_not_base)

lemma set_with_not: "set (with_not ps) = set ps \<union> (\<lambda>kv. (fst kv @ ''_not'', snd kv)) ` set ps"
  by (induction ps) (auto simp: with_not_def chain_def)

lemma length_with_not: "length (with_not ps) = 2 * length ps"
  by (induction ps) (simp_all add: with_not_def chain_def)

text \<open>
  C3. Whatever \<open>settings.TESTING\<close> is, \<open>FILTER_FIELDS\<close> maps every suffix of the base
  table and its companion \<open><suffix>_not\<close> to the configuration of the suffix, has no
  other key, and has twice the entries of the base table.
\<close>

theorem FILTER_FIELDS_suffix_and_not:
  "(\<forall>(k, v) \<in> set (base_filter_fields testing).
      map_of (FILTER_FIELDS testing) k = Some v
      \<and> map_of (FILTER_FIELDS testing) (k @ ''_not'') = Some v)
   \<and> set (map fst (FILTER_FIELDS testing))
       = fst ` set (base_filter_fields testing)
         \<union> (\<lambda>k. k @ ''_not'') ` fst ` set (base_filter_fields testing)
   \<and> distinct (map fst (FILTER_FIELDS testing))
   \<and> length (FILTER_FIELDS testing) = 2 * length (base_filter_fields testing)"
proof (intro conjI)
  have dist: "distinct (map fst (FILTER_FIELDS testing))"
    by (simp add: FILTER_FIELDS_eq distinct_with_not_base)
  show "\<forall>(k, v) \<in> set (base_filter_fields testing).
      map_of (FILTER_FIELDS testing) k = Some v
      \<and> map_of (FILTER_FIELDS testing) (k @ ''_not'') = Some v"
  proof (clarify, intro conjI)
    fix k v assume kv: "(k, v) \<in> set (base_filter_fields testing)"
    then have "(k, v) \<in> set (FILTER_FIELDS testing)"
      by (simp add: FILTER_FIELDS_eq set_with_not)
    then show "map_of (FILTER_FIELDS testing) k = Some v"
      using dist by (rule map_of_is_SomeI [rotated])
    from kv have "(k @ ''_not'', v) \<in> set (FILTER_FIELDS testing)"
      by (force simp: FILTER_FIELDS_eq set_with_not)
    then show "map_of (FILTER_FIELDS testing) (k @ ''_not'') = Some v"
      using dist by (rule map_of_is_SomeI [rotated])
  qed
  show "set (map fst (FILTER_FIELDS testing))
       = fst ` set (base_filter_fields testing)
         \<union> (\<lambda>k. k @ ''_not'') ` fst ` set (base_filter_fields testing)"
    by (simp add: FILTER_FIELDS_eq set_with_not image_Un image_image)
  show "distinct (map fst (FILTER_FIELDS testing))" by (rule dist)
  show "length (FILTER_FIELDS testing) = 2 * length (base_filter_fields testing)"
    by (simp add: FILTER_FIELDS_eq length_with_not)
qed

theorem FILTER_FIELDS_witness:
  "map_of (FILTER_FIELDS True) ''in'' = Some [(''type_modifier'', list_modifier)]
   \<and> map_of (FILTER_FIELDS True) ''in_not'' = Some [(''type_modifier'', list_modifier)]
   \<and> length (FILTER_FIELDS True) = 6
   \<and> map_of (FILTER_FIELDS False) ''exact_not'' = Some []
   \<and> length (FILTER_FIELDS False) = 62"
  using FILTER_FIELDS_suffix_and_not [of True] FILTER_FIELDS_suffix_and_not [of False]
  by (simp add: base_filter_fields_def filter_fields_testing_def filter_fields_all_def)

subsection \<open>process_query_kwarg\<close>

lemma process_query_kwarg_not_branch:
  "endswith key ''__not'' \<Longrightarrow>
   process_query_kwarg fl testing models model key val
     = Inr [NotQ (replace_str ''__not'' [] key) val]"
  by (subst process_query_kwarg.simps) simp

lemma replace_from_only_suffix:
  "old \<noteq> [] \<Longrightarrow> (\<forall>ps ss. k0 @ old = ps @ old @ ss \<longrightarrow> ss = [])
   \<Longrightarrow> replace_from old [] (k0 @ old) = k0"
proof (induction k0)
  case Nil
  then show ?case by (cases old) simp_all
next
  case (Cons c cs)
  have np: "\<not> prefix old ((c # cs) @ old)"
  proof
    assume "prefix old ((c # cs) @ old)"
    then obtain ss where ss: "(c # cs) @ old = old @ ss" by (auto simp: prefix_def)
    with Cons.prems(2) [rule_format, of "[]" ss] have "ss = []" by simp
    with ss show False by simp
  qed
  have "\<forall>ps ss. cs @ old = ps @ old @ ss \<longrightarrow> ss = []"
  proof (intro allI impI)
    fix ps ss assume "cs @ old = ps @ old @ ss"
    then have "(c # cs) @ old = (c # ps) @ old @ ss" by simp
    with Cons.prems(2) show "ss = []" by blast
  qed
  from Cons.IH [OF Cons.prems(1) this] np show ?case by simp
qed

text \<open>
  Where \<open>__not\<close> occurs in the key only as its suffix, the key of the negated
  expression is the key without the suffix.
\<close>

lemma process_query_kwarg_not_only_suffix:
  assumes "\<forall>ps ss. k0 @ ''__not'' = ps @ ''__not'' @ ss \<longrightarrow> ss = []"
  shows "process_query_kwarg fl testing models model (k0 @ ''__not'') val = Inr [NotQ k0 val]"
proof -
  have "replace_from ''__not'' [] (k0 @ ''__not'') = k0"
    using assms by (intro replace_from_only_suffix) simp_all
  moreover have "endswith (k0 @ ''__not'') ''__not''"
    by (simp add: endswith_def suffix_def)
  ultimately show ?thesis
    by (simp add: process_query_kwarg_not_branch replace_str_def)
qed

text \<open>
  C4. For a key that ends with \<open>__not\<close>, \<open>process_query_kwarg\<close> returns one negated
  expression, but its key is the given key without every occurrence of \<open>__not\<close>, not
  only without the suffix: for \<open>user__notes__not\<close> the expression is on \<open>useres\<close>,
  where the docstring and the claim have \<open>user__notes\<close>.
\<close>

theorem process_query_kwarg_not_inner_occurrence:
  "process_query_kwarg fl testing models model ''user__notes__not'' val
     = Inr [NotQ ''useres'' val]
   \<and> process_query_kwarg fl testing models model ''user__notes__not'' val
     \<noteq> Inr [NotQ ''user__notes'' val]"
  by (subst process_query_kwarg.simps, subst process_query_kwarg.simps)
     (simp add: endswith_def replace_str_def suffix_def)

subsection \<open>input_type_parameters_for_update_or_create\<close>

text \<open>
  What the function returns with an id, with a unique field beside other fields, and
  with no unique field.
\<close>

lemma input_type_parameters_with_id:
  "input_type_parameters_for_update_or_create
      [(''username'', PDict [(''unique'', PList [PStr ''unique''])]), (''name'', PDict [])]
      [(''id'', PInt 7), (''username'', PStr ''jo''), (''name'', PStr ''Jo'')]
    = Inr (PDict [(''id'', PInt 7),
                  (''defaults'', PDict [(''username'', PStr ''jo''), (''name'', PStr ''Jo'')])])"
  by (simp add: input_type_parameters_for_update_or_create_def omit_def
      related_object_id_if_django_type_def prop_or_val_def prop_or_def has_def
      merge_all_def merge_def R_prop_def)

lemma input_type_parameters_unique_and_defaults:
  "input_type_parameters_for_update_or_create
      [(''username'', PDict [(''unique'', PList [PStr ''unique''])]), (''name'', PDict []),
       (''region'', PDict [(''django_type'', PClass ''Region'' [])])]
      [(''username'', PStr ''jo''), (''name'', PStr ''Jo''),
       (''region'', PDict [(''id'', PInt 5)])]
    = Inr (PDict [(''username'', PStr ''jo''),
                  (''defaults'', PDict [(''name'', PStr ''Jo''), (''region_id'', PInt 5)])])"
  by (simp add: input_type_parameters_for_update_or_create_def omit_def
      related_object_id_if_django_type_def prop_or_val_def prop_or_def has_def
      key_value_based_on_unique_or_foreign_def contains_def item_path_or_def
      merge_deep_all_def R_prop_def R_prop_val_def)

lemma input_type_parameters_only_defaults:
  "input_type_parameters_for_update_or_create
      [(''name'', PDict []), (''size'', PDict [])]
      [(''name'', PStr ''Jo''), (''size'', PInt 3)]
    = Inr (PDict [(''name'', PStr ''Jo''), (''size'', PInt 3)])"
  by (simp add: input_type_parameters_for_update_or_create_def omit_def
      related_object_id_if_django_type_def prop_or_val_def prop_or_def has_def
      key_value_based_on_unique_or_foreign_def contains_def item_path_or_def
      merge_deep_all_def R_prop_def R_prop_val_def)

text \<open>
  C2. Without an id and with a unique field as the only field, the dict to insert has
  one key, which is the unique field and not \<open>defaults\<close>: the function takes the
  branch meant for a dict of defaults only and \<open>R.prop('defaults', ...)\<close> finds no such
  key, where the claim has the unique field at top level.
\<close>

theorem input_type_parameters_single_unique_field:
  "input_type_parameters_for_update_or_create
      [(''username'', PDict [(''unique'', PList [PStr ''unique''])])]
      [(''username'', PStr ''jo'')]
    = Inl (Exception ''No key defaults found'')
   \<and> input_type_parameters_for_update_or_create
      [(''username'', PDict [(''unique'', PList [PStr ''unique''])])]
      [(''username'', PStr ''jo'')]
    \<noteq> Inr (PDict [(''username'', PStr ''jo'')])"
  by (simp add: input_type_parameters_for_update_or_create_def omit_def
      related_object_id_if_django_type_def prop_or_val_def prop_or_def has_def
      key_value_based_on_unique_or_foreign_def contains_def item_path_or_def
      merge_deep_all_def R_prop_def)

subsection \<open>delete_if_marked_for_delete\<close>

text \<open>
  C7. Unless both the \<open>id\<close> and the \<open>deleted\<close> entry of the model data are truthy,
  the function returns \<open>None\<close> and the database is as before, so the database changes
  only when both are. When both are truthy the rows of that id are deleted; then an
  exception of the lookup among the deleted rows leaves the function, an instance that
  is falsy makes it raise, and otherwise it returns the upsert class called with the
  instance as the named argument.
\<close>

theorem delete_if_marked_for_delete_cases:
  "(\<not> (truthy (prop_or (PBool False) ''id'' model_data)
        \<and> truthy (prop_or (PBool False) ''deleted'' model_data)) \<longrightarrow>
      delete_if_marked_for_delete call_fn orm_delete orm_get_deleted upsert fld model_data store
        = (Inr PNone, store))
   \<and> (snd (delete_if_marked_for_delete call_fn orm_delete orm_get_deleted upsert fld model_data store)
        \<noteq> store \<longrightarrow>
      truthy (prop_or (PBool False) ''id'' model_data)
      \<and> truthy (prop_or (PBool False) ''deleted'' model_data))
   \<and> (truthy (prop_or (PBool False) ''id'' model_data)
        \<and> truthy (prop_or (PBool False) ''deleted'' model_data) \<longrightarrow>
      (\<exists>i. map_of model_data ''id'' = Some i
         \<and> snd (delete_if_marked_for_delete call_fn orm_delete orm_get_deleted upsert fld model_data
                  store)
             = orm_delete store i
         \<and> (case orm_get_deleted (orm_delete store i) (pick [''id''] model_data) of
               Inl e \<Rightarrow>
                 fst (delete_if_marked_for_delete call_fn orm_delete orm_get_deleted upsert fld
                        model_data store)
                   = Inl e
             | Inr inst \<Rightarrow>
                 (if truthy inst
                  then fst (delete_if_marked_for_delete call_fn orm_delete orm_get_deleted upsert fld
                              model_data store)
                         = py_call call_fn upsert [] [(fld, inst)]
                  else isl (fst (delete_if_marked_for_delete call_fn orm_delete orm_get_deleted upsert
                                   fld model_data store))))))"
  by (auto simp: delete_if_marked_for_delete_def all_satisfy_def prop_or_def R_prop_def Let_def
      split: option.splits sum.splits if_splits)

theorem delete_if_marked_for_delete_witness:
  "delete_if_marked_for_delete symbolic_call sample_orm_delete sample_orm_get_deleted
       (PClass ''UpsertRegion'' []) ''region''
       [(''id'', PInt 5), (''name'', PStr ''x'')] [(PInt 5, False)]
     = (Inr PNone, [(PInt 5, False)])
   \<and> delete_if_marked_for_delete symbolic_call sample_orm_delete sample_orm_get_deleted
       (PClass ''UpsertRegion'' []) ''region''
       [(''id'', PInt 5), (''deleted'', PStr ''2019-01-09'')] [(PInt 5, False)]
     = (Inr (PCall (PClass ''UpsertRegion'' []) []
               [(''region'', PCall (PClass ''Region'' []) [] [(''id'', PInt 5)])]),
        [(PInt 5, True)])
   \<and> delete_if_marked_for_delete symbolic_call sample_orm_delete sample_orm_get_deleted
       (PClass ''UpsertRegion'' []) ''region''
       [(''id'', PInt 6), (''deleted'', PStr ''2019-01-09'')] [(PInt 5, False)]
     = (Inl DoesNotExist, [(PInt 5, False)])"
  using delete_if_marked_for_delete_cases
          [of "[(''id'', PInt 5), (''name'', PStr ''x'')]" symbolic_call sample_orm_delete
              sample_orm_get_deleted "PClass ''UpsertRegion'' []" "''region''" "[(PInt 5, False)]"]
        delete_if_marked_for_delete_cases
          [of "[(''id'', PInt 5), (''deleted'', PStr ''2019-01-09'')]" symbolic_call sample_orm_delete
              sample_orm_get_deleted "PClass ''UpsertRegion'' []" "''region''" "[(PInt 5, False)]"]
        delete_if_marked_for_delete_cases
          [of "[(''id'', PInt 6), (''deleted'', PStr ''2019-01-09'')]" symbolic_call sample_orm_delete
              sample_orm_get_deleted "PClass ''UpsertRegion'' []" "''region''" "[(PInt 5, False)]"]
  by (simp add: delete_if_marked_for_delete_def all_satisfy_def prop_or_def R_prop_def
        sample_orm_delete_def sample_orm_get_deleted_def pick_def py_call_def)

subsection \<open>The Decimal scalar\<close>

text \<open>
  C9. \<open>serialize\<close> returns \<open>str(dec)\<close> for an instance of the scalar class of the module
  and raises \<open>AssertionError\<close> for anything else: the name \<open>Decimal\<close> in its assertion
  is the scalar class, not the imported one, so a \<open>decimal.Decimal\<close> value fails the
  assertion.
\<close>

theorem serialize_asserts_scalar_class:
  "map_of module_globals ''Decimal'' = Some schema_helpers_Decimal
   \<and> serialize py_str dec =
       (if isinstance dec schema_helpers_Decimal then Inr (PStr (py_str dec))
        else Inl AssertionError)
   \<and> serialize py_str (PCall decimal_Decimal [PStr ''1.5''] []) = Inl AssertionError"
  by (simp add: serialize_def module_globals_def from_pairs_def isinstance_def issubclass_def
        decimal_Decimal_def schema_helpers_Decimal_def)

theorem serialize_witness:
  "serialize sample_str (PCall schema_helpers_Decimal [PStr ''1.5''] []) = Inr (PStr ''1.5'')
   \<and> serialize sample_str (PCall decimal_Decimal [PStr ''1.5''] []) = Inl AssertionError
   \<and> serialize sample_str (PInt 3) = Inl AssertionError"
  using serialize_asserts_scalar_class
          [of sample_str "PCall schema_helpers_Decimal [PStr ''1.5''] []"]
    serialize_asserts_scalar_class [of sample_str "PInt 3"]
  by (simp add: isinstance_def issubclass_def schema_helpers_Decimal_def sample_str_def)

subsection \<open>process_filter_kwargs\<close>

lemma keys_foldl_update:
  "fst ` set (foldl (\<lambda>d (k, v). AList.update k v d) d ps) = fst ` set d \<union> fst ` set ps"
proof (induction ps arbitrary: d)
  case Nil
  then show ?case by simp
next
  case (Cons p ps)
  obtain k v where p: "p = (k, v)" by (cases p)
  show ?case using Cons.IH [of "AList.update k v d"] by (simp add: p dom_update)
qed

lemma keys_from_pairs: "set (map fst (from_pairs ps)) = set (map fst ps)"
  using keys_foldl_update [of "[]" ps] by (simp add: from_pairs_def)

lemma keys_map_keys_deep:
  "set (map fst (map_keys_deep (convert_filter_key testing) kwargs))
     = (\<lambda>k. convert_filter_key testing k PNone) ` set (map fst kwargs)"
proof -
  have "map fst (map (\<lambda>(k, v). (convert_filter_key testing k (h v), (h v :: pyval))) kwargs)
      = map (\<lambda>k. convert_filter_key testing k PNone) (map fst kwargs)" for h
    by (induction kwargs) (auto simp: convert_filter_key_def)
  then show ?thesis
    unfolding map_keys_deep_def keys_from_pairs by (simp only: set_map)
qed

text \<open>The replacement of \<open>_\<close> by \<open>__\<close> doubles every underscore of the string.\<close>

lemma replace_from_char:
  "replace_from [c] new s = concat (map (\<lambda>x. if x = c then new else [x]) s)"
  by (induction s) auto

lemma replace_underscore_doubles:
  "replace_str ''_'' ''__'' k = concat (map (\<lambda>x. if x = CHR ''_'' then ''__'' else [x]) k)"
  by (simp add: replace_str_def replace_from_char)

text \<open>
  What the key lambda does: a key in which some filter-field name occurs after an
  underscore has all its underscores doubled, any other key is kept, also where a
  filter-field name occurs in it without an underscore before it.
\<close>

lemma convert_filter_key_changed:
  assumes "s \<in> set (map fst (FILTER_FIELDS testing))" and "sublist (''_'' @ s) k"
  shows "convert_filter_key testing k v = replace_str ''_'' ''__'' k"
  using assms
  by (auto simp: convert_filter_key_def any_satisfy_def contains_str_def list_ex_iff)

lemma convert_filter_key_kept:
  assumes "\<forall>s \<in> set (map fst (FILTER_FIELDS testing)). \<not> sublist (''_'' @ s) k"
  shows "convert_filter_key testing k v = k"
  using assms
  by (auto simp: convert_filter_key_def any_satisfy_def contains_str_def list_ex_iff)

lemma contains_is_filter_field: "''contains'' \<in> set (map fst (FILTER_FIELDS testing))"
  by (cases testing)
     (simp_all add: FILTER_FIELDS_eq base_filter_fields_def keys_with_not_testing
        keys_with_not_all)

lemma convert_filter_key_id_contains:
  "convert_filter_key testing ''id_contains'' v = ''id__contains''"
proof -
  have "sublist (''_'' @ ''contains'') ''id_contains''"
    using sublist_appendI [of "''_contains''" "''id''" "[]"] by simp
  from convert_filter_key_changed [OF contains_is_filter_field this]
  show ?thesis by (simp add: replace_underscore_doubles)
qed

lemma convert_filter_key_first_login:
  "convert_filter_key True ''first_login'' v = ''first_login''"
  by (rule convert_filter_key_kept)
     (simp add: FILTER_FIELDS_eq base_filter_fields_def keys_with_not_testing sublist_code)

lemma convert_filter_key_nested:
  "map_keys_deep (convert_filter_key True)
     [(''user'', PDict [(''id_in'', PList [PInt 1, PInt 2])])]
   = [(''user'', PDict [(''id__in'', PList [PInt 1, PInt 2])])]"
proof -
  have a: "convert_filter_key True ''id_in'' v = ''id__in''" for v
  proof -
    have "''in'' \<in> set (map fst (FILTER_FIELDS True))"
      by (simp add: FILTER_FIELDS_eq base_filter_fields_def keys_with_not_testing)
    moreover have "sublist (''_'' @ ''in'') ''id_in''"
      using sublist_appendI [of "''_in''" "''id''" "[]"] by simp
    ultimately show ?thesis
      using convert_filter_key_changed [of "''in''" True "''id_in''" v]
      by (simp add: replace_underscore_doubles)
  qed
  have b: "convert_filter_key True ''user'' v = ''user''" for v
    by (rule convert_filter_key_kept)
       (simp add: FILTER_FIELDS_eq base_filter_fields_def keys_with_not_testing sublist_code)
  show ?thesis
    by (simp add: map_keys_deep_def from_pairs_def a b)
qed

lemma flatten_query_kwargs_single:
  "flatten_query_kwargs fl testing models model [(key, val)]
     = process_query_kwarg fl testing models model key val"
  by (cases "process_query_kwarg fl testing models model key val")
     (simp_all add: flatten_query_kwargs_def)

text \<open>
  C5. The keys are converted with \<open>replace('_', '__')\<close> on the whole key, which doubles
  the underscores of the field name too and not only the one before the suffix: the
  filter argument \<open>first_name_contains\<close> of the field \<open>first_name\<close> becomes the query
  key \<open>first__name__contains\<close>, where the claim and the docstring (\<open>__\<close> "to match
  django's query language") have \<open>first_name__contains\<close>.
\<close>

theorem process_filter_kwargs_doubles_field_underscores:
  "convert_filter_key testing ''first_name_contains'' v = ''first__name__contains''
   \<and> convert_filter_key testing ''first_name_contains'' v \<noteq> ''first_name__contains''
   \<and> process_filter_kwargs fl testing models model [(''first_name_contains'', PStr ''jo'')]
     = process_query_kwarg fl testing models model ''first__name__contains'' (PStr ''jo'')
   \<and> process_filter_kwargs fl testing models user_model
        [(''first_name_contains'', PStr ''jo'')]
     = Inr [Q ''first__name__contains'' (PStr ''jo'')]"
proof -
  have "sublist (''_'' @ ''contains'') ''first_name_contains''"
    using sublist_appendI [of "''_contains''" "''first_name''" "[]"] by simp
  from convert_filter_key_changed [OF contains_is_filter_field this]
  have c: "convert_filter_key testing ''first_name_contains'' w = ''first__name__contains''"
    for w
    by (simp add: replace_underscore_doubles)
  have m: "map_keys_deep (convert_filter_key testing) [(''first_name_contains'', PStr ''jo'')]
      = [(''first__name__contains'', PStr ''jo'')]"
    by (simp add: map_keys_deep_def from_pairs_def c)
  have p: "process_filter_kwargs fl testing models model' [(''first_name_contains'', PStr ''jo'')]
      = process_query_kwarg fl testing models model' ''first__name__contains'' (PStr ''jo'')"
    for model'
    by (simp add: process_filter_kwargs_def m flatten_query_kwargs_single)
  have q: "process_query_kwarg fl testing models user_model ''first__name__contains''
        (PStr ''jo'')
      = Inr [Q ''first__name__contains'' (PStr ''jo'')]"
    by (subst process_query_kwarg.simps)
       (simp add: endswith_def suffix_def user_model_def split_str_def)
  show ?thesis using c p q by simp
qed

subsection \<open>Denied fields\<close>

lemma map_e_keys:
  "map_e (\<lambda>(k, v). case f v of Inl e \<Rightarrow> Inl e | Inr w \<Rightarrow> Inr (k, w)) d = Inr res
   \<Longrightarrow> map fst res = map fst d"
proof (induction d arbitrary: res)
  case Nil
  then show ?case by simp
next
  case (Cons p d)
  obtain k v where p: "p = (k, v)" by (cases p)
  from Cons.prems obtain w res' where
    w: "f v = Inr w"
    and r: "map_e (\<lambda>(k, v). case f v of Inl e \<Rightarrow> Inl e | Inr w \<Rightarrow> Inr (k, w)) d = Inr res'"
    and res: "res = (k, w) # res'"
    by (auto simp: p split: sum.splits)
  from Cons.IH [OF r] res show ?case by (simp add: p)
qed

lemma map_dict_e_keys: "map_dict_e f d = Inr res \<Longrightarrow> map fst res = map fst d"
  unfolding map_dict_e_def by (rule map_e_keys)

lemma map_e_set:
  "map_e f xs = Inr ys \<Longrightarrow> y \<in> set ys \<Longrightarrow> \<exists>x \<in> set xs. f x = Inr y"
proof (induction xs arbitrary: ys)
  case Nil
  then show ?case by simp
next
  case (Cons x xs)
  from Cons.prems(1) obtain z zs where z: "f x = Inr z" and zs: "map_e f xs = Inr zs"
    and ys: "ys = z # zs"
    by (auto split: sum.splits)
  show ?case
  proof (cases "y = z")
    case True
    with z show ?thesis by simp
  next
    case False
    with Cons.prems(2) ys have "y \<in> set zs" by simp
    from Cons.IH [OF zs this] show ?thesis by auto
  qed
qed

lemma fields_of_entries:
  "fields_of (PDict fd) = Inr flds \<Longrightarrow> fd = map (\<lambda>(k, c). (k, PDict c)) flds"
proof -
  have "map_e (\<lambda>(k, v). case (case v of PDict cfg \<Rightarrow> Inr cfg | _ \<Rightarrow> Inl TypeError) of
            Inl e \<Rightarrow> Inl e | Inr w \<Rightarrow> Inr (k, w)) fd = Inr flds
        \<Longrightarrow> fd = map (\<lambda>(k, c). (k, PDict c)) flds"
  proof (induction fd arbitrary: flds)
    case Nil
    then show ?case by simp
  next
    case (Cons p fd)
    obtain k v where p: "p = (k, v)" by (cases p)
    from Cons.prems obtain c flds' where
      v: "v = PDict c"
      and r: "map_e (\<lambda>(k, v). case (case v of PDict cfg \<Rightarrow> Inr cfg | _ \<Rightarrow> Inl TypeError) of
            Inl e \<Rightarrow> Inl e | Inr w \<Rightarrow> Inr (k, w)) fd = Inr flds'"
      and f: "flds = (k, c) # flds'"
      by (auto simp: p split: sum.splits pyval.splits)
    from Cons.IH [OF r] f v show ?case by (simp add: p)
  qed
  then show "fields_of (PDict fd) = Inr flds \<Longrightarrow> fd = map (\<lambda>(k, c). (k, PDict c)) flds"
    by (simp add: fields_of_def map_dict_e_def)
qed

lemma denied_not_in_filtered:
  assumes fd: "fd = map (\<lambda>(k, c). (k, PDict c)) flds"
    and d: "distinct (map fst fd)"
    and k: "map_of fd k = Some (PDict cfg)"
    and p: "\<not> P (k, cfg)"
  shows "k \<notin> set (map fst (filter_dict P flds))"
proof
  assume "k \<in> set (map fst (filter_dict P flds))"
  then obtain c where c: "(k, c) \<in> set flds" and pc: "P (k, c)"
    by (auto simp: filter_dict_def)
  from c fd have "(k, PDict c) \<in> set fd" by force
  with d have "map_of fd k = Some (PDict c)" by simp
  with k have "c = cfg" by simp
  with pc p show False by simp
qed

text \<open>Taking a field out of the dict takes it out of the dict of configurations.\<close>

lemma map_e_omit:
  assumes "\<forall>v. (k, v) \<in> set d \<longrightarrow> (\<exists>w. f v = Inr w)"
  shows "map_e (\<lambda>(k, v). case f v of Inl e \<Rightarrow> Inl e | Inr w \<Rightarrow> Inr (k, w)) (omit [k] d)
     = (case map_e (\<lambda>(k, v). case f v of Inl e \<Rightarrow> Inl e | Inr w \<Rightarrow> Inr (k, w)) d of
          Inl e \<Rightarrow> Inl e
        | Inr r \<Rightarrow> Inr (omit [k] r))"
  using assms
proof (induction d)
  case Nil
  then show ?case by (simp add: omit_def)
next
  case (Cons p d)
  obtain k' v where p: "p = (k', v)" by (cases p)
  from Cons.prems have rest: "\<forall>v. (k, v) \<in> set d \<longrightarrow> (\<exists>w. f v = Inr w)" by simp
  note ih = Cons.IH [OF rest, unfolded omit_def]
  show ?case
  proof (cases "k' = k")
    case True
    with Cons.prems p obtain w where "f v = Inr w" by auto
    with True ih show ?thesis
      by (simp add: p omit_def split: sum.splits)
  next
    case False
    with ih show ?thesis
      by (simp add: p omit_def split: sum.splits)
  qed
qed

lemma fields_of_omit:
  assumes d: "distinct (map fst fd)" and k: "map_of fd k = Some (PDict cfg)"
  shows "fields_of (PDict (omit [k] fd))
     = (case fields_of (PDict fd) of Inl e \<Rightarrow> Inl e | Inr flds \<Rightarrow> Inr (omit [k] flds))"
proof -
  have "\<forall>v. (k, v) \<in> set fd \<longrightarrow>
          (\<exists>w. (case v of PDict cfg \<Rightarrow> Inr cfg | _ \<Rightarrow> Inl TypeError) = Inr w)"
  proof (intro allI impI)
    fix v assume "(k, v) \<in> set fd"
    with d have "map_of fd k = Some v" by simp
    with k show "\<exists>w. (case v of PDict cfg \<Rightarrow> Inr cfg | _ \<Rightarrow> Inl TypeError) = Inr w" by simp
  qed
  from map_e_omit [OF this] show ?thesis
    by (simp add: fields_of_def map_dict_e_def)
qed

lemma filter_dict_omit:
  assumes "\<forall>c. (k, c) \<in> set flds \<longrightarrow> \<not> P (k, c)"
  shows "filter_dict P (omit [k] flds) = filter_dict P flds"
  using assms by (induction flds) (auto simp: filter_dict_def omit_def)

lemma denied_entries:
  assumes fd: "fd = map (\<lambda>(k, c). (k, PDict c)) flds"
    and d: "distinct (map fst fd)"
    and k: "map_of fd k = Some (PDict cfg)"
    and p: "\<not> P (k, cfg)"
  shows "\<forall>c. (k, c) \<in> set flds \<longrightarrow> \<not> P (k, c)"
proof (intro allI impI)
  fix c assume "(k, c) \<in> set flds"
  with fd have "(k, PDict c) \<in> set fd" by force
  with d have "map_of fd k = Some (PDict c)" by simp
  with k p show "\<not> P (k, c)" by simp
qed

text \<open>
  A denied field generates nothing: each of the three functions gives for the dict
  what it gives for the dict without the field.
\<close>

lemma filtered_fields_omit:
  assumes d: "distinct (map fst fd)" and k: "map_of fd k = Some (PDict cfg)"
    and p: "\<not> P (k, cfg)"
  shows "(case fields_of (PDict (omit [k] fd)) of
            Inl e \<Rightarrow> Inl e | Inr flds \<Rightarrow> F (filter_dict P flds))
       = (case fields_of (PDict fd) of
            Inl e \<Rightarrow> Inl e | Inr flds \<Rightarrow> F (filter_dict P flds))"
proof (cases "fields_of (PDict fd)")
  case (Inl e)
  then show ?thesis by (simp add: fields_of_omit [OF d k])
next
  case (Inr flds)
  from denied_entries [where P = P, OF fields_of_entries [OF Inr] d k p]
  have "filter_dict P (omit [k] flds) = filter_dict P flds" by (rule filter_dict_omit)
  with Inr show ?thesis by (simp add: fields_of_omit [OF d k])
qed

lemma input_type_fields_without:
  assumes f: "call_if_lambda fields_dict = PDict fd"
    and d: "distinct (map fst fd)"
    and k: "map_of fd k = Some (PDict cfg)"
    and deny: "map_of cfg crud = Some (PStr DENY)"
    and crud: "crud \<in> {CREATE, READ, UPDATE}"
  shows "input_type_fields call_fn itc entry_in fields_dict crud parents
     = input_type_fields call_fn itc entry_in (PDict (omit [k] fd)) crud parents"
proof -
  let ?P = "\<lambda>key_value. \<not> prop_eq_or False crud DENY (snd key_value)"
  from crud have ne: "crud \<noteq> []" by (auto simp: CREATE_def READ_def UPDATE_def)
  have p: "\<not> ?P (k, cfg)" using deny by (simp add: prop_eq_or_def DENY_def)
  from filtered_fields_omit
      [where P = ?P
         and F = "map_dict_e
                    (\<lambda>field_config.
                       instantiate_graphene_type call_fn itc entry_in field_config parents crud)",
       OF d k p]
  have "input_type_fields call_fn itc entry_in (PDict fd) crud parents
      = input_type_fields call_fn itc entry_in (PDict (omit [k] fd)) crud parents"
    unfolding input_type_fields_def Let_def call_if_lambda_def using ne by simp
  moreover have "input_type_fields call_fn itc entry_in fields_dict crud parents
      = input_type_fields call_fn itc entry_in (PDict fd) crud parents"
    using f ne by (simp add: input_type_fields_def call_if_lambda_def)
  ultimately show ?thesis by simp
qed

lemma allowed_read_fields_without:
  assumes d: "distinct (map fst fd)"
    and k: "map_of fd k = Some (PDict cfg)"
    and deny: "prop_eq_or_in entry_in READ DENY cfg"
  shows "allowed_read_fields call_fn itc entry_in (PDict fd) graphene_type
     = allowed_read_fields call_fn itc entry_in (PDict (omit [k] fd)) graphene_type"
proof -
  let ?P = "\<lambda>key_value. True \<and> \<not> prop_eq_or_in entry_in READ DENY (snd key_value)"
  have p: "\<not> ?P (k, cfg)" using deny by simp
  from filtered_fields_omit
      [where P = ?P and F = "map_dict_e (resolve_type call_fn itc graphene_type)", OF d k p]
  show ?thesis unfolding allowed_read_fields_def o_def by simp
qed

lemma allowed_filter_arguments_without:
  assumes f: "call_if_lambda fields_dict = PDict fd"
    and d: "distinct (map fst fd)"
    and k: "map_of fd k = Some (PDict cfg)"
    and deny: "prop_eq_or_in entry_in READ DENY cfg"
  shows "allowed_filter_arguments call_fn itc entry_in testing fields_dict graphene_type
     = allowed_filter_arguments call_fn itc entry_in testing (PDict (omit [k] fd)) graphene_type"
proof -
  let ?P = "\<lambda>key_value. True \<and> \<not> prop_eq_or_in entry_in READ DENY (snd key_value)"
  have p: "\<not> ?P (k, cfg)" using deny by simp
  from filtered_fields_omit
      [where P = ?P
         and F = "\<lambda>flds. case map_dict_e (resolve_type call_fn itc graphene_type) flds of
                           Inl e \<Rightarrow> Inl e
                         | Inr args \<Rightarrow> add_filters call_fn testing args",
       OF d k p]
  have "allowed_filter_arguments call_fn itc entry_in testing (PDict fd) graphene_type
      = allowed_filter_arguments call_fn itc entry_in testing (PDict (omit [k] fd))
          graphene_type"
    unfolding allowed_filter_arguments_def o_def call_if_lambda_def by simp
  moreover have "allowed_filter_arguments call_fn itc entry_in testing fields_dict graphene_type
      = allowed_filter_arguments call_fn itc entry_in testing (PDict fd) graphene_type"
    using f by (simp add: allowed_filter_arguments_def call_if_lambda_def)
  ultimately show ?thesis by simp
qed

text \<open>The name of a denied field is no key of the dict of input fields or read fields.\<close>

lemma input_type_fields_omits:
  assumes f: "call_if_lambda fields_dict = PDict fd"
    and d: "distinct (map fst fd)"
    and k: "map_of fd k = Some (PDict cfg)"
    and deny: "map_of cfg crud = Some (PStr DENY)"
    and crud: "crud \<in> {CREATE, READ, UPDATE}"
  shows "\<not> returns_key k (input_type_fields call_fn itc entry_in fields_dict crud parents)"
proof
  let ?P = "\<lambda>key_value. \<not> prop_eq_or False crud DENY (snd key_value)"
  assume r: "returns_key k (input_type_fields call_fn itc entry_in fields_dict crud parents)"
  from crud have ne: "crud \<noteq> []" by (auto simp: CREATE_def READ_def UPDATE_def)
  from r obtain res where
    res: "input_type_fields call_fn itc entry_in fields_dict crud parents = Inr res"
    and kin: "k \<in> set (map fst res)"
    by (auto simp: returns_key_def has_def split: sum.splits)
  from res ne f obtain flds where fl: "fields_of (PDict fd) = Inr flds"
    and m: "map_dict_e
              (\<lambda>field_config.
                 instantiate_graphene_type call_fn itc entry_in field_config parents crud)
              (filter_dict ?P flds) = Inr res"
    by (auto simp: input_type_fields_def split: sum.splits)
  have "\<not> ?P (k, cfg)"
    using deny by (simp add: prop_eq_or_def DENY_def)
  from denied_not_in_filtered [where P = ?P, OF fields_of_entries [OF fl] d k this]
    map_dict_e_keys [OF m] kin
  show False by simp
qed

lemma allowed_read_fields_omits:
  assumes f: "call_if_lambda fields_dict = PDict fd"
    and d: "distinct (map fst fd)"
    and k: "map_of fd k = Some (PDict cfg)"
    and deny: "prop_eq_or_in entry_in READ DENY cfg"
  shows "\<not> returns_key k (allowed_read_fields call_fn itc entry_in fields_dict graphene_type)"
proof
  let ?P = "\<lambda>key_value. True \<and> \<not> prop_eq_or_in entry_in READ DENY (snd key_value)"
  assume r: "returns_key k
               (allowed_read_fields call_fn itc entry_in fields_dict graphene_type)"
  from r obtain res where
    res: "allowed_read_fields call_fn itc entry_in fields_dict graphene_type = Inr res"
    and kin: "k \<in> set (map fst res)"
    by (auto simp: returns_key_def has_def split: sum.splits)
  from res have "\<exists>d. fields_dict = PDict d"
    by (cases fields_dict) (simp_all add: allowed_read_fields_def fields_of_def)
  with f have fdict: "fields_dict = PDict fd" by (auto simp: call_if_lambda_def)
  from res fdict obtain flds where fl: "fields_of (PDict fd) = Inr flds"
    and m: "map_dict_e (resolve_type call_fn itc graphene_type) (filter_dict ?P flds)
              = Inr res"
    by (auto simp: allowed_read_fields_def split: sum.splits)
  have "\<not> ?P (k, cfg)" using deny by simp
  from denied_not_in_filtered [where P = ?P, OF fields_of_entries [OF fl] d k this]
    map_dict_e_keys [OF m] kin
  show False by simp
qed

text \<open>
  Every key of the dict of filter arguments is the name of a field that is not denied
  for read, or a filter argument \<open><f>_<suffix>\<close> of such a field \<open>f\<close>.
\<close>

lemma keys_merge: "fst ` set (merge a b) = fst ` set a \<union> fst ` set b"
  by (simp add: merge_def keys_foldl_update)

lemma keys_foldl_merge:
  "fst ` set (foldl merge a dcts) = fst ` set a \<union> (\<Union>d \<in> set dcts. fst ` set d)"
  by (induction dcts arbitrary: a) (auto simp: keys_merge)

lemma keys_merge_all: "fst ` set (merge_all dcts) = (\<Union>d \<in> set dcts. fst ` set d)"
  by (simp add: merge_all_def keys_foldl_merge)

lemma allowed_filter_pairs_keys:
  assumes "allowed_filter_pairs call_fn testing field_name graphene_type = Inr pairs"
    and "p \<in> set pairs"
  shows "\<exists>s. has s (FILTER_FIELDS testing) \<and> fst p = field_name @ ''_'' @ s"
proof -
  from map_e_set [OF assms [unfolded allowed_filter_pairs_def]]
  obtain x where x: "x \<in> set (FILTER_FIELDS testing)"
    and fx: "(case x of (filter_str, config) \<Rightarrow>
          case (if has ''type_modifier'' config
                then (case map_of config ''type_modifier'' of
                        Some m \<Rightarrow> py_call call_fn m [graphene_type] []
                      | None \<Rightarrow> Inl (KeyError ''type_modifier''))
                else py_call call_fn graphene_type [] []) of
            Inl e \<Rightarrow> Inl e
          | Inr t \<Rightarrow> Inr (field_name @ ''_'' @ filter_str, t)) = Inr p"
    by (auto simp: filter_dict_def)
  obtain s c where xs: "x = (s, c)" by (cases x)
  from fx have "fst p = field_name @ ''_'' @ s"
    by (auto simp: xs split: sum.splits)
  moreover from x have "has s (FILTER_FIELDS testing)"
    by (force simp: has_def xs)
  ultimately show ?thesis by blast
qed

lemma make_filters_keys:
  assumes "make_filters call_fn testing pair = Inr d" and "k \<in> fst ` set d"
  shows "k = fst pair \<or> (\<exists>s. has s (FILTER_FIELDS testing) \<and> k = fst pair @ ''_'' @ s)"
proof -
  from assms(1) obtain pairs where
    ps: "allowed_filter_pairs call_fn testing (fst pair) (class_of (snd pair)) = Inr pairs"
    and d: "d = from_pairs ([pair] @ pairs)"
    by (auto simp: make_filters_def split: sum.splits)
  from assms(2) d have "k \<in> set (map fst ([pair] @ pairs))"
    using keys_from_pairs [of "[pair] @ pairs"] by simp
  then have "k = fst pair \<or> (\<exists>p \<in> set pairs. k = fst p)" by auto
  with allowed_filter_pairs_keys [OF ps] show ?thesis by blast
qed

lemma add_filters_keys:
  assumes "add_filters call_fn testing argument_dict = Inr res" and "k \<in> fst ` set res"
  shows "\<exists>f \<in> fst ` set argument_dict.
           k = f \<or> (\<exists>s. has s (FILTER_FIELDS testing) \<and> k = f @ ''_'' @ s)"
proof -
  from assms(1) obtain dcts where
    m: "map_e (make_filters call_fn testing) argument_dict = Inr dcts"
    and res: "res = merge_all dcts"
    by (auto simp: add_filters_def to_pairs_def split: sum.splits)
  from assms(2) res obtain d where d: "d \<in> set dcts" and kd: "k \<in> fst ` set d"
    by (auto simp: keys_merge_all)
  from map_e_set [OF m d] obtain pair where
    pair: "pair \<in> set argument_dict" and mf: "make_filters call_fn testing pair = Inr d"
    by blast
  from make_filters_keys [OF mf kd] pair show ?thesis by force
qed

lemma allowed_filter_arguments_keys:
  assumes f: "call_if_lambda fields_dict = PDict fd"
    and d: "distinct (map fst fd)"
    and r: "returns_key x
              (allowed_filter_arguments call_fn itc entry_in testing fields_dict graphene_type)"
  shows "\<exists>f c. map_of fd f = Some (PDict c) \<and> \<not> prop_eq_or_in entry_in READ DENY c
           \<and> (x = f \<or> (\<exists>s. has s (FILTER_FIELDS testing) \<and> x = f @ ''_'' @ s))"
proof -
  let ?P = "\<lambda>key_value. True \<and> \<not> prop_eq_or_in entry_in READ DENY (snd key_value)"
  from r obtain res where
    res: "allowed_filter_arguments call_fn itc entry_in testing fields_dict graphene_type
            = Inr res"
    and xin: "x \<in> fst ` set res"
    by (auto simp: returns_key_def has_def split: sum.splits)
  from res f obtain flds args where fl: "fields_of (PDict fd) = Inr flds"
    and m: "map_dict_e (resolve_type call_fn itc graphene_type) (filter_dict ?P flds)
              = Inr args"
    and af: "add_filters call_fn testing args = Inr res"
    by (auto simp: allowed_filter_arguments_def split: sum.splits)
  have fd: "fd = map (\<lambda>(k, c). (k, PDict c)) flds" by (rule fields_of_entries [OF fl])
  have keys: "fst ` set args = fst ` set (filter_dict ?P flds)"
    using map_dict_e_keys [OF m] by (metis set_map)
  from add_filters_keys [OF af xin] obtain g where
    g: "g \<in> fst ` set args"
    and xg: "x = g \<or> (\<exists>s. has s (FILTER_FIELDS testing) \<and> x = g @ ''_'' @ s)"
    by blast
  from g keys obtain c where c: "(g, c) \<in> set flds" and pc: "?P (g, c)"
    by (auto simp: filter_dict_def)
  from c fd have "(g, PDict c) \<in> set fd" by force
  with d have "map_of fd g = Some (PDict c)" by simp
  with pc xg show ?thesis by auto
qed

text \<open>The keys of a returned dict are the fields that the filter keeps, in their order.\<close>

lemma fields_of_filter:
  assumes "fd = map (\<lambda>(k, c). (k, PDict c)) flds"
  shows "map fst (filter_dict (\<lambda>key_value. P (snd key_value)) flds)
     = map fst (filter (\<lambda>(k, v). case v of PDict cfg \<Rightarrow> P cfg | _ \<Rightarrow> False) fd)"
  unfolding assms filter_dict_def by (induction flds) auto

lemma input_type_fields_keys:
  assumes f: "call_if_lambda fields_dict = PDict fd"
    and ne: "crud \<noteq> []"
    and res: "input_type_fields call_fn itc entry_in fields_dict crud parents = Inr res"
  shows "map fst res
     = map fst (filter (\<lambda>(k, v). case v of PDict cfg \<Rightarrow> \<not> prop_eq_or False crud DENY cfg
                                | _ \<Rightarrow> False) fd)"
proof -
  let ?P = "\<lambda>key_value. \<not> prop_eq_or False crud DENY (snd key_value)"
  from res ne f obtain flds where fl: "fields_of (PDict fd) = Inr flds"
    and m: "map_dict_e
              (\<lambda>field_config.
                 instantiate_graphene_type call_fn itc entry_in field_config parents crud)
              (filter_dict ?P flds) = Inr res"
    by (auto simp: input_type_fields_def split: sum.splits)
  from map_dict_e_keys [OF m]
    fields_of_filter [where P = "\<lambda>cfg. \<not> prop_eq_or False crud DENY cfg",
      OF fields_of_entries [OF fl]]
  show ?thesis by simp
qed

lemma allowed_read_fields_keys:
  assumes res: "allowed_read_fields call_fn itc entry_in (PDict fd) graphene_type = Inr res"
  shows "map fst res
     = map fst (filter (\<lambda>(k, v). case v of
                                  PDict cfg \<Rightarrow> \<not> prop_eq_or_in entry_in READ DENY cfg
                                | _ \<Rightarrow> False) fd)"
proof -
  let ?P = "\<lambda>key_value. True \<and> \<not> prop_eq_or_in entry_in READ DENY (snd key_value)"
  from res obtain flds where fl: "fields_of (PDict fd) = Inr flds"
    and m: "map_dict_e (resolve_type call_fn itc graphene_type) (filter_dict ?P flds)
              = Inr res"
    by (auto simp: allowed_read_fields_def split: sum.splits)
  from map_dict_e_keys [OF m]
    fields_of_filter [where P = "\<lambda>cfg. \<not> prop_eq_or_in entry_in READ DENY cfg",
      OF fields_of_entries [OF fl]]
  show ?thesis by simp
qed

lemma denied_for_read:
  "prop_eq_or_in entry_in READ DENY cfg
     = (\<exists>e. map_of cfg READ = Some e \<and> (e = PStr DENY \<or> entry_in e DENY))"
  by (simp add: prop_eq_or_in_def prop_eq_or_in_or_def split: option.splits)

lemma FILTER_FIELDS_testing:
  "FILTER_FIELDS True =
    [(''contains'', []), (''contains_not'', []),
     (''icontains'', []), (''icontains_not'', []),
     (''in'', [(''type_modifier'', list_modifier)]),
     (''in_not'', [(''type_modifier'', list_modifier)])]"
  by (simp add: FILTER_FIELDS_eq base_filter_fields_def filter_fields_testing_def with_not_def
        chain_def)

text \<open>
  An example with a homonym: the field \<open>checked_in\<close> is denied for read, and the dict of
  filter arguments has the key \<open>checked_in\<close>, which is the \<open>in\<close> filter of the readable
  field \<open>checked\<close>.
\<close>

lemma sample_filter_arguments_key:
  "returns_key ''checked_in''
       (allowed_filter_arguments symbolic_call symbolic_input_type_class list_membership True
          (PDict sample_fields) graphene_ObjectType)"
  by (simp add: sample_fields_def allowed_filter_arguments_def call_if_lambda_def fields_of_def
      map_dict_e_def filter_dict_def prop_eq_or_in_def prop_eq_or_in_or_def READ_def DENY_def
      list_membership_def resolve_type_def R_prop_def graphene_Boolean_def graphene_Scalar_def
      issubclass_def py_call_def add_filters_def to_pairs_def make_filters_def
      allowed_filter_pairs_def FILTER_FIELDS_testing has_def list_modifier_def from_pairs_def
      merge_all_def merge_def returns_key_def symbolic_call_def)

text \<open>
  C1. Let a field of the dict be denied for a crud operation: its configuration has
  \<open>DENY\<close> as the entry of the operation. Then \<open>input_type_fields\<close> for that operation
  returns no dict with the field among its keys, and returns what it returns for the
  dict without the field. Let the read entry of a field be \<open>DENY\<close>, or contain it by
  the membership test of \<open>R.prop_eq_or_in\<close>. Then \<open>allowed_read_fields\<close> returns no
  dict with the field among its keys, \<open>allowed_read_fields\<close> (which takes the dict
  itself, where the other two also take a lambda that returns it) and
  \<open>allowed_filter_arguments\<close> return what they return for the dict without the field,
  and every key of the filter arguments is the name or a filter argument
  \<open><f>_<suffix>\<close> of another field \<open>f\<close>, one that is not denied for read.
\<close>

theorem denied_field_omitted:
  assumes "call_if_lambda fields_dict = PDict fd"
    and "distinct (map fst fd)"
    and "map_of fd k = Some (PDict cfg)"
  shows "(crud \<in> {CREATE, READ, UPDATE} \<and> map_of cfg crud = Some (PStr DENY) \<longrightarrow>
            \<not> returns_key k (input_type_fields call_fn itc entry_in fields_dict crud parents)
            \<and> input_type_fields call_fn itc entry_in fields_dict crud parents
              = input_type_fields call_fn itc entry_in (PDict (omit [k] fd)) crud parents)
       \<and> ((\<exists>e. map_of cfg READ = Some e \<and> (e = PStr DENY \<or> entry_in e DENY)) \<longrightarrow>
            \<not> returns_key k
                (allowed_read_fields call_fn itc entry_in fields_dict graphene_type)
            \<and> allowed_read_fields call_fn itc entry_in (PDict fd) graphene_type
              = allowed_read_fields call_fn itc entry_in (PDict (omit [k] fd)) graphene_type
            \<and> allowed_filter_arguments call_fn itc entry_in testing fields_dict graphene_type
              = allowed_filter_arguments call_fn itc entry_in testing (PDict (omit [k] fd))
                  graphene_type
            \<and> (\<forall>x. returns_key x
                      (allowed_filter_arguments call_fn itc entry_in testing fields_dict
                         graphene_type) \<longrightarrow>
                 (\<exists>f c. f \<noteq> k \<and> map_of fd f = Some (PDict c)
                    \<and> \<not> prop_eq_or_in entry_in READ DENY c
                    \<and> (x = f \<or> (\<exists>s. has s (FILTER_FIELDS testing) \<and> x = f @ ''_'' @ s)))))"
proof (intro conjI impI allI)
  assume c: "crud \<in> {CREATE, READ, UPDATE} \<and> map_of cfg crud = Some (PStr DENY)"
  then show "\<not> returns_key k
                 (input_type_fields call_fn itc entry_in fields_dict crud parents)"
    using input_type_fields_omits [OF assms, of crud] by blast
  from c show "input_type_fields call_fn itc entry_in fields_dict crud parents
      = input_type_fields call_fn itc entry_in (PDict (omit [k] fd)) crud parents"
    using input_type_fields_without [OF assms, of crud] by blast
next
  assume "\<exists>e. map_of cfg READ = Some e \<and> (e = PStr DENY \<or> entry_in e DENY)"
  then have deny: "prop_eq_or_in entry_in READ DENY cfg" by (simp add: denied_for_read)
  show "\<not> returns_key k (allowed_read_fields call_fn itc entry_in fields_dict graphene_type)"
    by (rule allowed_read_fields_omits [OF assms deny])
  show "allowed_read_fields call_fn itc entry_in (PDict fd) graphene_type
      = allowed_read_fields call_fn itc entry_in (PDict (omit [k] fd)) graphene_type"
    by (rule allowed_read_fields_without [OF assms(2,3) deny])
  show "allowed_filter_arguments call_fn itc entry_in testing fields_dict graphene_type
      = allowed_filter_arguments call_fn itc entry_in testing (PDict (omit [k] fd))
          graphene_type"
    by (rule allowed_filter_arguments_without [OF assms deny])
  fix x
  assume "returns_key x
            (allowed_filter_arguments call_fn itc entry_in testing fields_dict graphene_type)"
  from allowed_filter_arguments_keys [OF assms(1,2) this] obtain f c where
    fc: "map_of fd f = Some (PDict c)" "\<not> prop_eq_or_in entry_in READ DENY c"
      "x = f \<or> (\<exists>s. has s (FILTER_FIELDS testing) \<and> x = f @ ''_'' @ s)"
    by blast
  from fc(1,2) assms(3) deny have "f \<noteq> k" by auto
  with fc show "\<exists>f c. f \<noteq> k \<and> map_of fd f = Some (PDict c)
                    \<and> \<not> prop_eq_or_in entry_in READ DENY c
                    \<and> (x = f \<or> (\<exists>s. has s (FILTER_FIELDS testing) \<and> x = f @ ''_'' @ s))"
    by blast
qed

theorem denied_field_omitted_witness:
  "\<not> returns_key ''checked_in''
       (input_type_fields symbolic_call symbolic_input_type_class list_membership
          (PDict sample_fields) ''create'' (PList []))
   \<and> input_type_fields symbolic_call symbolic_input_type_class list_membership
          (PDict sample_fields) ''create'' (PList [])
     = input_type_fields symbolic_call symbolic_input_type_class list_membership
          (PDict (omit [''checked_in''] sample_fields)) ''create'' (PList [])
   \<and> \<not> returns_key ''secret''
       (allowed_read_fields symbolic_call symbolic_input_type_class list_membership
          (PDict sample_fields) graphene_ObjectType)
   \<and> returns_key ''checked''
       (allowed_read_fields symbolic_call symbolic_input_type_class list_membership
          (PDict sample_fields) graphene_ObjectType)
   \<and> allowed_read_fields symbolic_call symbolic_input_type_class list_membership
          (PDict sample_fields) graphene_ObjectType
     = allowed_read_fields symbolic_call symbolic_input_type_class list_membership
          (PDict (omit [''secret''] sample_fields)) graphene_ObjectType
   \<and> allowed_filter_arguments symbolic_call symbolic_input_type_class list_membership True
          (PDict sample_fields) graphene_ObjectType
     = allowed_filter_arguments symbolic_call symbolic_input_type_class list_membership True
          (PDict (omit [''secret''] sample_fields)) graphene_ObjectType
   \<and> returns_key ''checked_in''
       (allowed_filter_arguments symbolic_call symbolic_input_type_class list_membership True
          (PDict sample_fields) graphene_ObjectType)
   \<and> (\<exists>f c. f \<noteq> ''secret'' \<and> map_of sample_fields f = Some (PDict c)
        \<and> \<not> prop_eq_or_in list_membership READ DENY c
        \<and> (''checked_in'' = f
             \<or> (\<exists>s. has s (FILTER_FIELDS True) \<and> ''checked_in'' = f @ ''_'' @ s)))"
proof -
  let ?denied = "[(''type'', graphene_DateTime), (''create'', PStr ''deny''),
                  (''read'', PStr ''deny'')]"
  let ?secret = "[(''type'', graphene_String), (''read'', PList [PStr ''deny''])]"
  have 1: "call_if_lambda (PDict sample_fields) = PDict sample_fields"
    by (simp add: call_if_lambda_def)
  have 2: "distinct (map fst sample_fields)"
    by (simp add: sample_fields_def)
  have 3: "map_of sample_fields ''checked_in'' = Some (PDict ?denied)"
    by (simp add: sample_fields_def)
  have 4: "''create'' \<in> {CREATE, READ, UPDATE} \<and> map_of ?denied ''create'' = Some (PStr DENY)"
    by (simp add: CREATE_def DENY_def)
  have 5: "map_of sample_fields ''secret'' = Some (PDict ?secret)"
    by (simp add: sample_fields_def)
  have 6: "\<exists>e. map_of ?secret READ = Some e \<and> (e = PStr DENY \<or> list_membership e DENY)"
    by (simp add: READ_def DENY_def list_membership_def)
  have 7: "returns_key ''checked''
       (allowed_read_fields symbolic_call symbolic_input_type_class list_membership
          (PDict sample_fields) graphene_ObjectType)"
    by (simp add: sample_fields_def allowed_read_fields_def fields_of_def map_dict_e_def
          filter_dict_def prop_eq_or_in_def prop_eq_or_in_or_def READ_def DENY_def
          list_membership_def resolve_type_def R_prop_def graphene_Boolean_def
          graphene_Scalar_def issubclass_def py_call_def returns_key_def has_def)
  from denied_field_omitted [OF 1 2 3, of "''create''" symbolic_call
         symbolic_input_type_class list_membership "PList []" graphene_ObjectType True] 4
  have a: "\<not> returns_key ''checked_in''
       (input_type_fields symbolic_call symbolic_input_type_class list_membership
          (PDict sample_fields) ''create'' (PList []))
   \<and> input_type_fields symbolic_call symbolic_input_type_class list_membership
          (PDict sample_fields) ''create'' (PList [])
     = input_type_fields symbolic_call symbolic_input_type_class list_membership
          (PDict (omit [''checked_in''] sample_fields)) ''create'' (PList [])"
    by blast
  from denied_field_omitted [OF 1 2 5, of "''create''" symbolic_call
         symbolic_input_type_class list_membership "PList []" graphene_ObjectType True] 6
    sample_filter_arguments_key
  have b: "\<not> returns_key ''secret''
       (allowed_read_fields symbolic_call symbolic_input_type_class list_membership
          (PDict sample_fields) graphene_ObjectType)
   \<and> allowed_read_fields symbolic_call symbolic_input_type_class list_membership
          (PDict sample_fields) graphene_ObjectType
     = allowed_read_fields symbolic_call symbolic_input_type_class list_membership
          (PDict (omit [''secret''] sample_fields)) graphene_ObjectType
   \<and> allowed_filter_arguments symbolic_call symbolic_input_type_class list_membership True
          (PDict sample_fields) graphene_ObjectType
     = allowed_filter_arguments symbolic_call symbolic_input_type_class list_membership True
          (PDict (omit [''secret''] sample_fields)) graphene_ObjectType
   \<and> (\<exists>f c. f \<noteq> ''secret'' \<and> map_of sample_fields f = Some (PDict c)
        \<and> \<not> prop_eq_or_in list_membership READ DENY c
        \<and> (''checked_in'' = f
             \<or> (\<exists>s. has s (FILTER_FIELDS True) \<and> ''checked_in'' = f @ ''_'' @ s)))"
    by blast
  from a b 7 sample_filter_arguments_key show ?thesis by blast
qed

subsection \<open>instantiate_graphene_type\<close>

lemma selected_graphene_type:
  "map_of fc ''graphene_type'' = Some g \<Longrightarrow> g \<noteq> PNone
   \<Longrightarrow> prop_or (prop_or PNone ''type'' fc) ''graphene_type'' fc = g"
  by (simp add: prop_or_def)

lemma selected_type:
  "map_of fc ''graphene_type'' = None \<or> map_of fc ''graphene_type'' = Some PNone
   \<Longrightarrow> prop_or (prop_or PNone ''type'' fc) ''graphene_type'' fc = prop_or PNone ''type'' fc"
  by (auto simp: prop_or_def)

text \<open>The function raises the missing-type exception when the selected value is falsy.\<close>

lemma instantiate_raises_missing:
  "\<not> truthy (prop_or (prop_or PNone ''type'' fc) ''graphene_type'' fc)
   \<Longrightarrow> instantiate_graphene_type call_fn itc entry_in fc parents crud = Inl missing_type_error"
  by (simp add: instantiate_graphene_type_def)

text \<open>
  With a \<open>graphene_type\<close> entry that is not \<open>None\<close>, the result does not depend on the
  \<open>type\<close> entry: two configurations that differ in that entry only are instantiated
  alike.
\<close>

lemma instantiate_ignores_type_entry:
  assumes g: "map_of fc ''graphene_type'' = Some g" "g \<noteq> PNone"
    and same: "\<forall>key. key \<noteq> ''type'' \<longrightarrow> map_of fc' key = map_of fc key"
    and crud: "crud \<noteq> ''type''"
  shows "instantiate_graphene_type call_fn itc entry_in fc' parents crud
     = instantiate_graphene_type call_fn itc entry_in fc parents crud"
proof -
  from same have g': "map_of fc' ''graphene_type'' = Some g" using g(1) by simp
  have 1: "prop_or (prop_or PNone ''type'' fc') ''graphene_type'' fc'
      = prop_or (prop_or PNone ''type'' fc) ''graphene_type'' fc"
    by (simp add: selected_graphene_type [OF g] selected_graphene_type [OF g' g(2)])
  have 2: "prop_or PNone ''type_modifier'' fc' = prop_or PNone ''type_modifier'' fc"
    using same by (simp add: prop_or_def)
  have 3: "R_prop ''fields'' fc' = R_prop ''fields'' fc"
    using same by (simp add: R_prop_def)
  have 4: "prop_eq_or_in_or entry_in False crud REQUIRE fc'
      = prop_eq_or_in_or entry_in False crud REQUIRE fc"
    using same crud by (simp add: prop_eq_or_in_or_def)
  show ?thesis
    unfolding instantiate_graphene_type_def by (simp only: 1 2 3 4)
qed

text \<open>
  A plain class, neither an \<open>ObjectType\<close> nor a function, is instantiated with the
  \<open>required\<close> flag whatever \<open>input_type_class\<close> and the opaque calls do.
\<close>

lemma instantiate_plain_class:
  assumes "prop_or (prop_or PNone ''type'' fc) ''graphene_type'' fc = PClass n bs"
    and "\<not> issubclass (PClass n bs) graphene_ObjectType"
    and "prop_or PNone ''type_modifier'' fc = PNone"
  shows "instantiate_graphene_type call_fn itc entry_in fc parents crud
     = Inr (PCall (PClass n bs) []
              [(''required'', PBool (prop_eq_or_in_or entry_in False crud REQUIRE fc))])"
  using assms by (simp add: instantiate_graphene_type_def py_call_def)

text \<open>
  When the selected value is truthy, a missing-type exception that leaves the function
  was raised inside \<open>input_type_class\<close> or inside an opaque call, for a field of a
  nested type, and not by the function's own test.
\<close>

lemma py_call_missing:
  "py_call call_fn f args kwargs = Inl missing_type_error
   \<Longrightarrow> call_fn f args kwargs = Inl missing_type_error"
  by (auto simp: py_call_def missing_type_error_def split: pyval.splits if_splits)

lemma instantiate_missing_from_nested:
  assumes t: "truthy (prop_or (prop_or PNone ''type'' fc) ''graphene_type'' fc)"
    and a: "instantiate_graphene_type call_fn itc entry_in fc parents crud
              = Inl missing_type_error"
  shows "(\<exists>c. itc c crud parents = Inl missing_type_error)
       \<or> (\<exists>f args kwargs. call_fn f args kwargs = Inl missing_type_error)"
proof -
  define g where "g = prop_or (prop_or PNone ''type'' fc) ''graphene_type'' fc"
  define resolved where "resolved =
               (if issubclass g graphene_ObjectType then
                  (case R_prop ''fields'' fc of
                     Inl e \<Rightarrow> Inl e
                   | Inr flds \<Rightarrow>
                       itc [(''graphene_type'', g), (''fields'', flds)]
                         crud parents)
                else
                  (case g of
                     PThunk g' \<Rightarrow>
                       (case R_prop ''fields'' fc of
                          Inl e \<Rightarrow> Inl e
                        | Inr flds \<Rightarrow>
                            itc [(''graphene_type'', g'), (''fields'', call_if_lambda flds)]
                              crud parents)
                   | PFun n \<Rightarrow> py_call call_fn g [PStr crud] []
                   | _ \<Rightarrow> Inr g))"
  have np: "R_prop ''fields'' fc \<noteq> Inl missing_type_error"
    by (simp add: R_prop_def missing_type_error_def split: option.splits)
  have r: "resolved = Inl missing_type_error \<Longrightarrow> ?thesis"
    using np py_call_missing [of call_fn g "[PStr crud]" "[]"]
    by (auto simp: resolved_def split: sum.splits pyval.splits if_splits)
  have "instantiate_graphene_type call_fn itc entry_in fc parents crud = (case resolved of
           Inl e \<Rightarrow> Inl e
         | Inr resolved_graphene_type \<Rightarrow>
             (if truthy (prop_or PNone ''type_modifier'' fc)
              then py_call call_fn (prop_or PNone ''type_modifier'' fc)
                     [resolved_graphene_type] []
              else py_call call_fn resolved_graphene_type []
                     [(''required'',
                       PBool (prop_eq_or_in_or entry_in False crud REQUIRE fc))]))"
    unfolding instantiate_graphene_type_def Let_def resolved_def g_def
    by (simp only: t not_True_eq_False if_False)
  with a r show ?thesis
    by (auto split: sum.splits if_splits dest: py_call_missing)
qed


end
